theory Spec2Isabelle
  imports Main "HOL-Library.Word" "HOL-Library.Multiset"
begin

unbundle bit_operations_syntax

chapter \<open>fake.help: a shallow embedding of the synchronisation core\<close>

text \<open>
  The development follows the JavaScript sources \<^verbatim>\<open>src/utils.js\<close>,
  \<^verbatim>\<open>src/cache.js\<close> and \<^verbatim>\<open>src/helpFormatter.js\<close>. Every function keeps
  the name it has in the source. A promise that rejects and a \<^verbatim>\<open>throw\<close> are a value
  \<open>Inl e\<close> of a sum type; objects that the source mutates are records that the
  model passes along and returns.
\<close>

section \<open>JavaScript values shared by the models\<close>

text \<open>
  Errors are values. \<open>ReferenceError\<close> and \<open>TypeError\<close> are the errors the language
  itself throws (an identifier that is declared nowhere, a property read on
  \<^verbatim>\<open>undefined\<close>); \<open>Error\<close> is \<^verbatim>\<open>new Error(msg)\<close> of the source; \<open>UpstreamError\<close>
  and \<open>IOError\<close> stand for the rejections of the comlink client and of
  \<^verbatim>\<open>fs.promises\<close>; \<open>SyntaxError\<close> is what \<^verbatim>\<open>JSON.parse\<close> throws.
\<close>

datatype js_error =
    ReferenceError string
  | TypeError string
  | Error string
  | UpstreamError string
  | IOError string
  | SyntaxError string

text \<open>
  A value that is a string or missing: \<open>None\<close> is \<^verbatim>\<open>undefined\<close> or \<^verbatim>\<open>null\<close>.
  It is truthy when it is a non-empty string.
\<close>

type_synonym jstr = "string option"

definition truthy :: "jstr \<Rightarrow> bool" where
  "truthy s = (case s of None \<Rightarrow> False | Some x \<Rightarrow> x \<noteq> [])"

text \<open>
  \<^verbatim>\<open>isStringEqual(a, b)\<close> is \<^verbatim>\<open>a && b && a.localeCompare(b) == 0\<close>. The
  comparison of \<^verbatim>\<open>localeCompare\<close> is taken to be 0 exactly on identical strings, which
  is what it is on the ASCII version identifiers the service exchanges.
\<close>

definition localeCompare_eq :: "string \<Rightarrow> string \<Rightarrow> bool" where
  "localeCompare_eq a b = (a = b)"

definition isStringEqual :: "jstr \<Rightarrow> jstr \<Rightarrow> bool" where
  "isStringEqual a b =
     (case (a, b) of
        (Some x, Some y) \<Rightarrow> truthy a \<and> truthy b \<and> localeCompare_eq x y
      | _ \<Rightarrow> False)"

section \<open>Identifier hashing (\<^verbatim>\<open>utils.js\<close>, lines 6 to 25)\<close>

subsection \<open>JavaScript numbers and strings\<close>

text \<open>
  A JavaScript string is a sequence of UTF-16 code units; \<^verbatim>\<open>charCodeAt\<close> returns
  one of them as a number between 0 and 65535. The arguments of the two generators are
  whatever the caller passes: \<^verbatim>\<open>undefined\<close>, \<^verbatim>\<open>null\<close>, a boolean, an integral
  number or a string.
\<close>

type_synonym js_string = "16 word list"

datatype js_arg = Undefined | Null | Bool bool | Num int | Str js_string

text \<open>
  Numbers are modelled as unbounded integers. The bitwise operators first convert their
  operands with ToInt32 and deliver a signed 32-bit result; \<^verbatim>\<open>>>> 0\<close> converts with
  ToUint32. Addition is the addition of doubles: it does not wrap. All sums that
  \<^verbatim>\<open>createHash\<close> forms stay below \<open>2 ^ 53\<close> in absolute value (lemma
  \<open>hash_step_exact\<close>), so they are exact.
\<close>

definition toInt32 :: "int \<Rightarrow> int" where
  "toInt32 x = (x + 2 ^ 31) mod 2 ^ 32 - 2 ^ 31"

definition toUint32 :: "int \<Rightarrow> int" where
  "toUint32 x = x mod 2 ^ 32"

definition js_xor :: "int \<Rightarrow> int \<Rightarrow> int" where
  "js_xor a b = toInt32 a XOR toInt32 b"

definition js_and :: "int \<Rightarrow> int \<Rightarrow> int" where
  "js_and a b = toInt32 a AND toInt32 b"

definition js_shl :: "int \<Rightarrow> nat \<Rightarrow> int" where
  "js_shl a k = toInt32 (toInt32 a * 2 ^ (k mod 32))"

definition charCodeAt :: "16 word \<Rightarrow> int" where
  "charCodeAt c = uint c"

text \<open>\<^verbatim>\<open>Number.prototype.toString\<close> on a non-negative integer: its decimal digits.\<close>

definition digit_char :: "nat \<Rightarrow> char" where
  "digit_char d = ''0123456789'' ! d"

function toString :: "nat \<Rightarrow> string" where
  "toString n = (if n < 10 then [digit_char n] else toString (n div 10) @ [digit_char (n mod 10)])"
  by pat_completeness auto
termination
  by (relation "measure id") auto

declare toString.simps [simp del]

subsection \<open>The source functions\<close>

text \<open>
  The body of the \<^verbatim>\<open>for\<close> loop of \<^verbatim>\<open>createHash\<close>, one character at a time:
  \<^verbatim>\<open>hval = hval ^ (str.charCodeAt(i) & 0xFF)\<close>, then
  \<^verbatim>\<open>hval += (hval << 1) + (hval << 4) + (hval << 7) + (hval << 8) + (hval << 24)\<close>.
\<close>

fun hash_loop :: "int \<Rightarrow> js_string \<Rightarrow> int" where
  "hash_loop hval [] = hval"
| "hash_loop hval (c # cs) =
     (let h1 = js_xor hval (js_and (charCodeAt c) 0xFF);
          h2 = h1 + (js_shl h1 1 + js_shl h1 4 + js_shl h1 7 + js_shl h1 8 + js_shl h1 24)
      in hash_loop h2 cs)"

definition createHash :: "js_string \<Rightarrow> string" where
  "createHash str = toString (nat (toUint32 (hash_loop 0x811c9dc5 str)))"

text \<open>
  \<^verbatim>\<open>!x\<close> holds of \<^verbatim>\<open>undefined\<close>, \<^verbatim>\<open>null\<close>, \<^verbatim>\<open>false\<close>, \<^verbatim>\<open>0\<close> and the
  empty string. A boolean or a number has no \<^verbatim>\<open>length\<close>: the test
  \<^verbatim>\<open>x.length === 0\<close> is false for it, and the loop of \<^verbatim>\<open>createHash\<close>, whose
  bound is then \<^verbatim>\<open>undefined\<close>, does not run, as for the empty string.
\<close>

definition falsy_arg :: "js_arg \<Rightarrow> bool" where
  "falsy_arg a =
     (case a of Undefined \<Rightarrow> True | Null \<Rightarrow> True | Bool b \<Rightarrow> \<not> b | Num k \<Rightarrow> k = 0
      | Str s \<Rightarrow> s = [])"

definition length_is_zero :: "js_arg \<Rightarrow> bool" where
  "length_is_zero a = (case a of Str s \<Rightarrow> length s = 0 | _ \<Rightarrow> False)"

definition code_units :: "js_arg \<Rightarrow> js_string" where
  "code_units a = (case a of Str s \<Rightarrow> s | _ \<Rightarrow> [])"

definition generateGuildId :: "js_arg \<Rightarrow> string" where
  "generateGuildId guildId =
     (if falsy_arg guildId \<or> length_is_zero guildId then []
      else CHR ''G'' # createHash (code_units guildId))"

definition generatePlayerId :: "js_arg \<Rightarrow> string" where
  "generatePlayerId playerId =
     (if falsy_arg playerId \<or> length_is_zero playerId then []
      else CHR ''P'' # createHash (code_units playerId))"

subsection \<open>The hash as the claim words it: 32-bit arithmetic on the low byte\<close>

text \<open>
  The reference the source is compared with: an unsigned 32-bit accumulator that
  starts at \<open>0x811c9dc5\<close>, is combined with the lower 8 bits of each code unit by
  exclusive or, and is then multiplied by the FNV prime written as a sum of shifts.
\<close>

definition fnv_step :: "16 word \<Rightarrow> 32 word \<Rightarrow> 32 word" where
  "fnv_step c h =
     (let x = h XOR (ucast c AND 0xFF)
      in x + push_bit 1 x + push_bit 4 x + push_bit 7 x + push_bit 8 x + push_bit 24 x)"

definition fnv32 :: "js_string \<Rightarrow> 32 word" where
  "fnv32 s = fold fnv_step s 0x811c9dc5"

text \<open>Reading a decimal numeral back, to say what "decimal representation" means.\<close>

definition digit_value :: "char \<Rightarrow> nat" where
  "digit_value c = of_char c - 48"

definition decimal_value :: "string \<Rightarrow> nat" where
  "decimal_value s = foldl (\<lambda>a c. 10 * a + digit_value c) 0 s"

subsection \<open>Proofs\<close>

lemma toInt32_mod: "toInt32 x mod 4294967296 = x mod 4294967296"
proof -
  have "(x + 2147483648) mod 4294967296 - 2147483648
      = x + 2147483648 - 4294967296 * ((x + 2147483648) div 4294967296) - 2147483648"
    by (simp add: minus_mult_div_eq_mod [symmetric])
  then have "toInt32 x = x + 4294967296 * (- ((x + 2147483648) div 4294967296))"
    by (simp add: toInt32_def)
  then show ?thesis by (metis mod_mult_self2)
qed

lemma toInt32_range: "- (2 ^ 31) \<le> toInt32 x \<and> toInt32 x < 2 ^ 31"
  unfolding toInt32_def by simp

lemma word_toInt32: "(word_of_int (toInt32 x) :: 32 word) = word_of_int x"
  using toInt32_mod [of x] by (simp add: word_of_int_eq_iff take_bit_eq_mod)

lemma word_js_xor: "(word_of_int (js_xor a b) :: 32 word) = word_of_int a XOR word_of_int b"
  unfolding js_xor_def by (simp add: word_toInt32 of_int_xor_eq)

lemma word_js_and: "(word_of_int (js_and a b) :: 32 word) = word_of_int a AND word_of_int b"
  unfolding js_and_def by (simp add: word_toInt32 of_int_and_eq)

lemma word_js_shl:
  "k < 32 \<Longrightarrow> (word_of_int (js_shl a k) :: 32 word) = push_bit k (word_of_int a)"
  unfolding js_shl_def by (simp add: word_toInt32 push_bit_eq_mult)

lemma word_charCodeAt: "(word_of_int (charCodeAt c) :: 32 word) = ucast c"
  unfolding charCodeAt_def by simp

lemma word_hash_step:
  "(word_of_int (let h1 = js_xor h (js_and (charCodeAt c) 0xFF)
      in h1 + (js_shl h1 1 + js_shl h1 4 + js_shl h1 7 + js_shl h1 8 + js_shl h1 24)) :: 32 word)
   = fnv_step c (word_of_int h)"
proof -
  define h1 where "h1 = js_xor h (js_and (charCodeAt c) 0xFF)"
  define x :: "32 word" where "x = word_of_int h XOR (ucast c AND 0xFF)"
  have hx: "word_of_int h1 = x"
    unfolding h1_def x_def word_js_xor word_js_and word_charCodeAt by simp
  have "(word_of_int (h1 + (js_shl h1 1 + js_shl h1 4 + js_shl h1 7 + js_shl h1 8 + js_shl h1 24)) :: 32 word)
      = x + push_bit 1 x + push_bit 4 x + push_bit 7 x + push_bit 8 x + push_bit 24 x"
    unfolding of_int_add by (simp only: word_js_shl hx add.assoc)
  then show ?thesis
    unfolding fnv_step_def Let_def h1_def [symmetric] x_def [symmetric] .
qed

lemma word_hash_loop:
  "(word_of_int (hash_loop h cs) :: 32 word) = fold fnv_step cs (word_of_int h)"
proof (induction cs arbitrary: h)
  case Nil
  show ?case by simp
next
  case (Cons c cs)
  have "(word_of_int (hash_loop h (c # cs)) :: 32 word)
      = fold fnv_step cs (word_of_int (let h1 = js_xor h (js_and (charCodeAt c) 0xFF)
      in h1 + (js_shl h1 1 + js_shl h1 4 + js_shl h1 7 + js_shl h1 8 + js_shl h1 24)))"
    by (simp only: hash_loop.simps Let_def Cons.IH)
  then show ?case
    by (simp only: word_hash_step fold_simps)
qed

lemma toUint32_unat: "nat (toUint32 h) = unat (word_of_int h :: 32 word)"
  unfolding toUint32_def by (simp add: unat_eq_nat_uint uint_word_of_int take_bit_eq_mod)

lemma createHash_fnv32: "createHash s = toString (unat (fnv32 s))"
  unfolding createHash_def fnv32_def toUint32_unat word_hash_loop by simp

text \<open>
  The sum of the loop body is a sum of six signed 32-bit numbers, hence far below
  \<open>2 ^ 53\<close>: the double addition of the source is exact, and modelling it by integer
  addition loses nothing.
\<close>

lemma js_shl_range: "- (2 ^ 31) \<le> js_shl a k \<and> js_shl a k < 2 ^ 31"
  unfolding js_shl_def by (rule toInt32_range)

lemma hash_step_exact:
  assumes "- (2 ^ 31) \<le> h1" and "h1 < 2 ^ 31"
  shows "\<bar>h1 + (js_shl h1 1 + js_shl h1 4 + js_shl h1 7 + js_shl h1 8 + js_shl h1 24)\<bar> < 2 ^ 53"
  using assms js_shl_range [of h1 1] js_shl_range [of h1 4] js_shl_range [of h1 7]
    js_shl_range [of h1 8] js_shl_range [of h1 24]
  by simp linarith

lemma toString_small: "n < 10 \<Longrightarrow> toString n = [digit_char n]"
  by (simp add: toString.simps)

lemma toString_large:
  "10 \<le> n \<Longrightarrow> toString n = toString (n div 10) @ [digit_char (n mod 10)]"
  by (subst toString.simps) simp

lemma digit_value_digit_char: "d < 10 \<Longrightarrow> digit_value (digit_char d) = d"
proof -
  assume "d < 10"
  then have "d \<in> {0, 1, 2, 3, 4, 5, 6, 7, 8, 9}" by auto
  then show ?thesis
    by (auto simp: digit_value_def digit_char_def)
qed

lemma decimal_value_snoc: "decimal_value (s @ [c]) = 10 * decimal_value s + digit_value c"
  by (simp add: decimal_value_def)

lemma decimal_value_toString: "decimal_value (toString n) = n"
proof (induction n rule: toString.induct)
  case (1 n)
  show ?case
  proof (cases "n < 10")
    case True
    then show ?thesis
      by (simp add: toString_small decimal_value_def digit_value_digit_char)
  next
    case False
    then have "decimal_value (toString (n div 10)) = n div 10"
      using 1 by simp
    with False show ?thesis
      by (simp add: toString_large decimal_value_snoc digit_value_digit_char)
  qed
qed

lemma falsy_arg_cases:
  "falsy_arg a \<longleftrightarrow> a \<in> {Undefined, Null, Bool False, Num 0, Str []}"
  by (cases a) (auto simp: falsy_arg_def)

text \<open>
  Claim C10. \<^verbatim>\<open>generatePlayerId\<close> and \<^verbatim>\<open>generateGuildId\<close> are total functions of
  their argument (so equal inputs give equal outputs). On the falsy values, which are
  \<^verbatim>\<open>undefined\<close>, \<^verbatim>\<open>null\<close>, \<^verbatim>\<open>false\<close>, \<^verbatim>\<open>0\<close> and the empty string, they
  return the empty string. On a non-empty string
  they return \<open>P\<close>, respectively \<open>G\<close>, followed by the decimal digits of an unsigned
  32-bit hash, which is the FNV accumulation over the lower 8 bits of each code unit:
  the digits read back give the hash, and the hash is below \<open>2 ^ 32\<close>.
\<close>

theorem generateId_hash:
  "generatePlayerId Undefined = [] \<and> generatePlayerId Null = [] \<and> generatePlayerId (Str []) = []
   \<and> generatePlayerId (Bool False) = [] \<and> generatePlayerId (Num 0) = []
   \<and> generateGuildId Undefined = [] \<and> generateGuildId Null = [] \<and> generateGuildId (Str []) = []
   \<and> generateGuildId (Bool False) = [] \<and> generateGuildId (Num 0) = []
   \<and> generatePlayerId (Str (c # cs)) = CHR ''P'' # toString (unat (fnv32 (c # cs)))
   \<and> generateGuildId (Str (c # cs)) = CHR ''G'' # toString (unat (fnv32 (c # cs)))
   \<and> decimal_value (toString (unat (fnv32 (c # cs)))) = unat (fnv32 (c # cs))
   \<and> unat (fnv32 (c # cs)) < 2 ^ 32"
proof -
  have "unat (fnv32 (c # cs)) < 2 ^ LENGTH(32)"
    by (rule unsigned_less)
  then show ?thesis
    by (simp add: generatePlayerId_def generateGuildId_def falsy_arg_def length_is_zero_def
        code_units_def createHash_fnv32 decimal_value_toString)
qed

text \<open>A run of the source model: \<^verbatim>\<open>generatePlayerId("abc")\<close> is \<^verbatim>\<open>"P440920331"\<close>.\<close>

lemma generatePlayerId_abc: "generatePlayerId (Str [97, 98, 99]) = ''P440920331''"
  by (simp add: generatePlayerId_def falsy_arg_def length_is_zero_def code_units_def
      createHash_fnv32 fnv32_def fnv_step_def toString_small toString_large digit_char_def)

section \<open>Localization lines (\<^verbatim>\<open>helpFormatter.js\<close>, lines 36 to 81)\<close>

subsection \<open>String primitives\<close>

text \<open>
  \<^verbatim>\<open>String.prototype.split\<close> with a one-character pattern: the pieces between the
  occurrences of the character, an empty piece included; a string without the character
  is its own single piece.
\<close>

fun split_on :: "char \<Rightarrow> string \<Rightarrow> string list" where
  "split_on d [] = [[]]"
| "split_on d (c # cs) =
     (if c = d then [] # split_on d cs
      else (case split_on d cs of p # ps \<Rightarrow> (c # p) # ps | [] \<Rightarrow> [[c]]))"

text \<open>\<^verbatim>\<open>trim\<close> removes white space at both ends (the ASCII white space characters).\<close>

definition is_space :: "char \<Rightarrow> bool" where
  "is_space c = (c \<in> set [CHR '' '', CHR 0x09, CHR 0x0A, CHR 0x0B, CHR 0x0C, CHR 0x0D])"

definition trim :: "string \<Rightarrow> string" where
  "trim s = rev (dropWhile is_space (rev (dropWhile is_space s)))"

definition startsWith :: "string \<Rightarrow> string \<Rightarrow> bool" where
  "startsWith s p = (take (length p) s = p)"

subsection \<open>The source functions\<close>

text \<open>
  \<^verbatim>\<open>processLocalizationLine\<close> returns \<^verbatim>\<open>undefined\<close> (\<open>None\<close>) or the pair
  \<^verbatim>\<open>[key, val]\<close>. The destructuring \<^verbatim>\<open>let [key, val] = ...\<close> takes the first two
  pieces; a missing second piece is \<^verbatim>\<open>undefined\<close>, which is falsy as the empty
  string is.
\<close>

definition processLocalizationLine :: "string \<Rightarrow> (string \<times> string) option" where
  "processLocalizationLine line =
     (if startsWith line ''#'' then None
      else (case map trim (split_on CHR ''|'' line) of
              key # val # _ \<Rightarrow> if key = [] \<or> val = [] then None else Some (key, val)
            | _ \<Rightarrow> None))"

type_synonym lang_map = "string \<rightharpoonup> string"

text \<open>
  \<^verbatim>\<open>processStreamByLine\<close>: the \<^verbatim>\<open>readline\<close> interface emits the lines of the
  decompressed file one by one; the handler stores \<^verbatim>\<open>langMap[key] = val\<close>. The
  model takes the emitted lines.
\<close>

fun streamLines :: "string list \<Rightarrow> lang_map \<Rightarrow> lang_map" where
  "streamLines [] langMap = langMap"
| "streamLines (line # rest) langMap =
     (case processLocalizationLine line of
        None \<Rightarrow> streamLines rest langMap
      | Some (key, val) \<Rightarrow> streamLines rest (langMap(key \<mapsto> val)))"

definition processStreamByLine :: "string list \<Rightarrow> lang_map" where
  "processStreamByLine fileStream = streamLines fileStream Map.empty"

text \<open>
  \<^verbatim>\<open>processFileContentsByLine\<close> stores \<^verbatim>\<open>langMap[localizationMap[key]] = val\<close>.
  The identifier \<^verbatim>\<open>localizationMap\<close> is declared nowhere: not in the module, not
  among its imports, not as a parameter. Evaluating it throws a ReferenceError, so the
  first line that parses ends the function with that error.
\<close>

definition localizationMap :: "js_error + (string \<rightharpoonup> string)" where
  "localizationMap = Inl (ReferenceError ''localizationMap is not defined'')"

fun contentLines :: "string list \<Rightarrow> lang_map \<Rightarrow> js_error + lang_map" where
  "contentLines [] langMap = Inr langMap"
| "contentLines (line # rest) langMap =
     (case processLocalizationLine line of
        None \<Rightarrow> contentLines rest langMap
      | Some (key, val) \<Rightarrow>
          (case localizationMap of
             Inl e \<Rightarrow> Inl e
           | Inr m \<Rightarrow>
               contentLines rest
                 (langMap((case m key of None \<Rightarrow> ''undefined'' | Some k \<Rightarrow> k) \<mapsto> val))))"

definition processFileContentsByLine :: "string \<Rightarrow> js_error + lang_map" where
  "processFileContentsByLine content = contentLines (split_on CHR 0x0A content) Map.empty"

subsection \<open>Properties of one line\<close>

lemma comment_line_skipped: "processLocalizationLine (CHR ''#'' # rest) = None"
  by (simp add: processLocalizationLine_def startsWith_def)

lemma split_on_no_delimiter: "d \<notin> set s \<Longrightarrow> split_on d s = [s]"
  by (induction s) auto

lemma line_without_bar_skipped: "CHR ''|'' \<notin> set line \<Longrightarrow> processLocalizationLine line = None"
  by (simp add: processLocalizationLine_def split_on_no_delimiter)

lemma parsed_line_nonempty:
  "processLocalizationLine line = Some (key, val) \<Longrightarrow> key \<noteq> [] \<and> val \<noteq> []"
  by (auto simp: processLocalizationLine_def split: if_splits list.splits)

subsection \<open>The four lines of the scenario\<close>

definition scenario_lines :: "string list" where
  "scenario_lines = [''# comment'', ''KEY_A | Hello'', ''malformed-line'', ''KEY_B|World'']"

definition scenario_content :: "string" where
  "scenario_content =
     ''# comment'' @ [CHR 0x0A] @ ''KEY_A | Hello'' @ [CHR 0x0A] @ ''malformed-line''
       @ [CHR 0x0A] @ ''KEY_B|World''"

lemma scenario_parse:
  "map processLocalizationLine scenario_lines
     = [None, Some (''KEY_A'', ''Hello''), None, Some (''KEY_B'', ''World'')]"
  by (simp add: scenario_lines_def processLocalizationLine_def startsWith_def trim_def
      is_space_def)

lemma scenario_split: "split_on CHR 0x0A scenario_content = scenario_lines"
  by (simp add: scenario_content_def scenario_lines_def)

lemma scenario_stream:
  "processStreamByLine scenario_lines = [''KEY_A'' \<mapsto> ''Hello'', ''KEY_B'' \<mapsto> ''World'']"
proof -
  have "processLocalizationLine ''# comment'' = None"
    "processLocalizationLine ''KEY_A | Hello'' = Some (''KEY_A'', ''Hello'')"
    "processLocalizationLine ''malformed-line'' = None"
    "processLocalizationLine ''KEY_B|World'' = Some (''KEY_B'', ''World'')"
    using scenario_parse by (simp_all add: scenario_lines_def)
  then show ?thesis
    by (simp add: processStreamByLine_def scenario_lines_def)
qed

text \<open>
  Claim C7. In the streamed mode the four lines give exactly the map
  \<open>{KEY_A: Hello, KEY_B: World}\<close>. In the pre-expanded mode the same lines, joined
  by newlines, do not give a map: the function throws a ReferenceError at the first
  line that parses.
\<close>

theorem localization_scenario_modes:
  "processStreamByLine scenario_lines = [''KEY_A'' \<mapsto> ''Hello'', ''KEY_B'' \<mapsto> ''World'']
   \<and> processFileContentsByLine scenario_content
       = Inl (ReferenceError ''localizationMap is not defined'')"
proof -
  have p: "processLocalizationLine ''# comment'' = None"
    "processLocalizationLine ''KEY_A | Hello'' = Some (''KEY_A'', ''Hello'')"
    "processLocalizationLine ''malformed-line'' = None"
    "processLocalizationLine ''KEY_B|World'' = Some (''KEY_B'', ''World'')"
    using scenario_parse by (simp_all add: scenario_lines_def)
  have "processStreamByLine scenario_lines = [''KEY_A'' \<mapsto> ''Hello'', ''KEY_B'' \<mapsto> ''World'']"
    by (simp add: processStreamByLine_def scenario_lines_def p)
  moreover have "processFileContentsByLine scenario_content
       = Inl (ReferenceError ''localizationMap is not defined'')"
    by (simp add: processFileContentsByLine_def scenario_split)
      (simp add: scenario_lines_def p localizationMap_def)
  ultimately show ?thesis by simp
qed

text \<open>
  More generally, the pre-expanded mode fails on every content with a line that parses,
  and returns the empty map on every other content: it never stores an entry.
\<close>

lemma contentLines_never_stores:
  "contentLines ls m = (if \<exists>l \<in> set ls. processLocalizationLine l \<noteq> None
     then Inl (ReferenceError ''localizationMap is not defined'') else Inr m)"
  by (induction ls arbitrary: m) (auto simp: localizationMap_def split: option.splits)

section \<open>The \<^verbatim>\<open>HelpFormatter\<close> object (\<^verbatim>\<open>helpFormatter.js\<close>, lines 83 to 102)\<close>

text \<open>
  The options arrive from the process environment, so the flags are strings or missing.
\<close>

record options =
  opt_concurrentPlayers :: nat
  opt_concurrentGuilds :: nat
  opt_languages :: string
  opt_noLocalization :: jstr
  opt_useSegments :: jstr
  opt_useUnzip :: jstr
  opt_updateInterval :: "nat option"
  opt_playerCacheTime :: int
  opt_dataPath :: string

text \<open>\<^verbatim>\<open>this._version\<close>: it starts as the empty object, all three properties missing.\<close>

record version_state =
  game :: jstr
  language :: jstr
  gameFiles :: "string list option"

datatype log_sink = LogSink

text \<open>
  The object after the constructor has run. The constructor assigns neither a
  \<^verbatim>\<open>logger\<close> nor a \<^verbatim>\<open>clientStub\<close> property, and no other line of the repository
  does; the two fields record that reading them gives \<^verbatim>\<open>undefined\<close>. The player
  cache and the four in-memory lookup tables are modelled where they are used.
\<close>

record help_formatter =
  concurrentPlayers :: nat
  concurrentGuilds :: nat
  languages :: "string list"
  noLocalization :: bool
  useSegments :: bool
  useUnzip :: bool
  updateInterval :: nat
  dataPath :: string
  logger :: "log_sink option"
  clientStub :: "log_sink option"
  version :: version_state
  langMaps :: "string \<rightharpoonup> lang_map"

definition upper_char :: "char \<Rightarrow> char" where
  "upper_char c =
     (case map_of (zip ''abcdefghijklmnopqrstuvwxyz'' ''ABCDEFGHIJKLMNOPQRSTUVWXYZ'') c of
        None \<Rightarrow> c | Some u \<Rightarrow> u)"

definition toUpperCase :: "string \<Rightarrow> string" where
  "toUpperCase s = map upper_char s"

definition flag_true :: "jstr \<Rightarrow> bool" where
  "flag_true v = (truthy v \<and> v = Some ''true'')"

definition new_HelpFormatter :: "options \<Rightarrow> help_formatter" where
  "new_HelpFormatter opts =
     \<lparr> concurrentPlayers = opt_concurrentPlayers opts,
       concurrentGuilds = opt_concurrentGuilds opts,
       languages = split_on CHR '','' (toUpperCase (opt_languages opts)),
       noLocalization = flag_true (opt_noLocalization opts),
       useSegments = flag_true (opt_useSegments opts),
       useUnzip = flag_true (opt_useUnzip opts),
       updateInterval = (case opt_updateInterval opts of None \<Rightarrow> 5 | Some 0 \<Rightarrow> 5 | Some n \<Rightarrow> n),
       dataPath = opt_dataPath opts,
       logger = None,
       clientStub = None,
       version = \<lparr> game = None, language = None, gameFiles = None \<rparr>,
       langMaps = Map.empty \<rparr>"

text \<open>The answer of the upstream metadata query.\<close>

record meta =
  latestGamedataVersion :: jstr
  latestLocalizationBundleVersion :: jstr

section \<open>The update poller (\<^verbatim>\<open>helpFormatter.js\<close>, lines 159 to 199)\<close>

text \<open>
  The state a tick of the interval timer can change: the baseline \<^verbatim>\<open>version\<close>
  captured by the closure, the versions the callback was invoked with, and the lines
  printed on the console.
\<close>

datatype console_line = ConsoleLog meta | ConsoleDebug meta | LoggerError string

record poller =
  baseline :: meta
  notified :: "meta list"
  console :: "console_line list"

definition versionCheck :: "meta \<Rightarrow> meta \<Rightarrow> bool \<times> meta" where
  "versionCheck oldVersion newVersion =
     (let (updated1, old1) =
            (if \<not> isStringEqual (latestGamedataVersion oldVersion) (latestGamedataVersion newVersion)
             then (True, oldVersion\<lparr>latestGamedataVersion := latestGamedataVersion newVersion\<rparr>)
             else (False, oldVersion))
      in if \<not> isStringEqual (latestLocalizationBundleVersion old1)
                 (latestLocalizationBundleVersion newVersion)
         then (True, old1\<lparr>latestLocalizationBundleVersion :=
                 latestLocalizationBundleVersion newVersion\<rparr>)
         else (updated1, old1))"

definition handleVersionNotification :: "poller \<Rightarrow> meta \<Rightarrow> poller" where
  "handleVersionNotification p newVersion =
     (let (updated, v) = versionCheck (baseline p) newVersion
      in if updated
         then p\<lparr>baseline := v, console := console p @ [ConsoleLog v], notified := notified p @ [v]\<rparr>
         else p\<lparr>baseline := v, console := console p @ [ConsoleDebug v]\<rparr>)"

text \<open>
  One tick: the body of the \<^verbatim>\<open>async\<close> arrow function given to \<^verbatim>\<open>setInterval\<close>. Its
  argument is the outcome of \<^verbatim>\<open>await self.comlinkStub.getMetaData()\<close>; its result is
  the outcome of the promise the arrow function returns, \<open>Inl\<close> for a rejection. The
  \<^verbatim>\<open>catch\<close> block evaluates \<^verbatim>\<open>self.logger.error(...)\<close>: with no
  \<^verbatim>\<open>logger\<close> property this is a property read on \<^verbatim>\<open>undefined\<close>.
\<close>

definition error_message :: "js_error \<Rightarrow> string" where
  "error_message e =
     (case e of ReferenceError m \<Rightarrow> m | TypeError m \<Rightarrow> m | Error m \<Rightarrow> m
      | UpstreamError m \<Rightarrow> m | IOError m \<Rightarrow> m | SyntaxError m \<Rightarrow> m)"

definition poll_tick :: "help_formatter \<Rightarrow> poller \<Rightarrow> js_error + meta \<Rightarrow> js_error + poller" where
  "poll_tick self p fetched =
     (case fetched of
        Inr newVersion \<Rightarrow> Inr (handleVersionNotification p newVersion)
      | Inl error \<Rightarrow>
          (case logger self of
             None \<Rightarrow> Inl (TypeError ''Cannot read properties of undefined (reading error)'')
           | Some sink \<Rightarrow>
               Inr (p\<lparr>console := console p
                      @ [LoggerError (''Unable to fetch metadata: '' @ error_message error)]\<rparr>)))"

text \<open>
  The interval timer fires whatever the previous tick did: a run of ticks keeps the
  poller state of the last tick that did not reject and collects the rejections,
  which nothing handles.
\<close>

fun poll_ticks ::
  "help_formatter \<Rightarrow> (js_error + meta) list \<Rightarrow> poller \<times> js_error list \<Rightarrow> poller \<times> js_error list"
where
  "poll_ticks self [] st = st"
| "poll_ticks self (f # fs) (p, unhandled) =
     (case poll_tick self p f of
        Inr p' \<Rightarrow> poll_ticks self fs (p', unhandled)
      | Inl e \<Rightarrow> poll_ticks self fs (p, unhandled @ [e]))"

text \<open>
  Claim C8. For the formatter as the constructor builds it, a tick whose metadata query
  throws is not logged and not swallowed: the tick's promise rejects with a TypeError,
  and no line reaches the console.
\<close>

theorem poll_tick_rejects:
  "poll_tick (new_HelpFormatter opts) p (Inl e)
     = Inl (TypeError ''Cannot read properties of undefined (reading error)'')"
  by (simp add: poll_tick_def new_HelpFormatter_def)

text \<open>A tick whose query succeeds never rejects, and later ticks still run.\<close>

lemma poll_tick_success: "poll_tick self p (Inr v) = Inr (handleVersionNotification p v)"
  by (simp add: poll_tick_def)

lemma poll_ticks_after_failure:
  "poll_ticks (new_HelpFormatter opts) [Inl e, Inr v] (p, [])
     = (handleVersionNotification p v,
        [TypeError ''Cannot read properties of undefined (reading error)''])"
  by (simp add: poll_tick_def new_HelpFormatter_def)

text \<open>
  Had the object a logger, the same tick would be logged and swallowed, as the claim
  says.
\<close>

lemma poll_tick_with_logger:
  "logger self = Some sink \<Longrightarrow>
   poll_tick self p (Inl e)
     = Inr (p\<lparr>console := console p @ [LoggerError (''Unable to fetch metadata: '' @ error_message e)]\<rparr>)"
  by (simp add: poll_tick_def)

section \<open>The TTL cache (\<^verbatim>\<open>cache.js\<close>)\<close>

subsection \<open>Plain objects as maps\<close>

text \<open>
  \<^verbatim>\<open>_keyValMap\<close> and \<^verbatim>\<open>_timeoutMap\<close> are plain objects created by \<^verbatim>\<open>{}\<close>. Reading
  \<^verbatim>\<open>obj[key]\<close> finds the own property of that name and otherwise the member that the
  object inherits from \<^verbatim>\<open>Object.prototype\<close>; each of those members is truthy (they
  are functions, and \<^verbatim>\<open>__proto__\<close> reads as the prototype object). A read therefore
  gives a stored value, an inherited member, or \<^verbatim>\<open>undefined\<close>. \<^verbatim>\<open>delete obj[key]\<close>
  removes an own property and leaves inherited members alone.
\<close>

definition object_prototype_names :: "string list" where
  "object_prototype_names =
     [''constructor'', ''__defineGetter__'', ''__defineSetter__'', ''hasOwnProperty'',
      ''__lookupGetter__'', ''__lookupSetter__'', ''isPrototypeOf'', ''propertyIsEnumerable'',
      ''toString'', ''valueOf'', ''__proto__'', ''toLocaleString'']"

datatype 'v js_member = Val 'v | Inherited string

definition property_of :: "(string \<rightharpoonup> 'v) \<Rightarrow> string \<Rightarrow> 'v js_member option" where
  "property_of obj k =
     (case obj k of
        Some v \<Rightarrow> Some (Val v)
      | None \<Rightarrow> if k \<in> set object_prototype_names then Some (Inherited k) else None)"

text \<open>
  Assigning \<^verbatim>\<open>obj['__proto__'] = x\<close> with an object \<open>x\<close> creates no property: it
  replaces the prototype of \<open>obj\<close>, after which reads of \<open>obj\<close> go through the
  properties of \<open>x\<close> (a player record, or the internals of a Node timer). That is
  outside this model: an operation that makes such an assignment has the result
  \<open>None\<close>, and no state of the model has a replaced prototype.
\<close>

definition replaces_prototype :: "string \<Rightarrow> bool" where
  "replaces_prototype k = (k = ''__proto__'')"

subsection \<open>The cache object and the timers of the event loop\<close>

text \<open>
  The cache object holds \<^verbatim>\<open>_keyValMap\<close>, \<^verbatim>\<open>_timeoutMap\<close> (key to timer handle)
  and \<^verbatim>\<open>_cacheTTL\<close>, an integral number of milliseconds. A timer created by
  \<^verbatim>\<open>setTimeout(remove, ttl, key)\<close> lives in the event loop until it fires or
  \<^verbatim>\<open>clearTimeout\<close> takes it out; the model keeps the pending timers (handle, due
  time, key) and the clock, in milliseconds, beside the object. Stored values are
  objects, hence truthy; a falsy value given to \<^verbatim>\<open>set\<close> is \<open>None\<close>.
\<close>

type_synonym pending_timer = "nat \<times> nat \<times> string"

record 'v cache =
  keyValMap :: "string \<rightharpoonup> 'v"
  timeoutMap :: "string \<rightharpoonup> nat"
  cacheTTL :: int
  timers :: "pending_timer list"
  now :: nat
  nextHandle :: nat

definition new_Cache :: "int \<Rightarrow> 'v cache" where
  "new_Cache ttl =
     \<lparr> keyValMap = Map.empty, timeoutMap = Map.empty, cacheTTL = ttl,
       timers = [], now = 0, nextHandle = 0 \<rparr>"

text \<open>
  Node's \<^verbatim>\<open>setTimeout\<close> uses the delay it is given when that lies between 1 and
  2147483647 ms, and 1 ms otherwise.
\<close>

definition timer_delay :: "int \<Rightarrow> nat" where
  "timer_delay after = (if 1 \<le> after \<and> after \<le> 2147483647 then nat after else 1)"

definition get_cache :: "jstr \<Rightarrow> 'v cache \<Rightarrow> 'v js_member option" where
  "get_cache key c =
     (case key of
        Some k \<Rightarrow>
          if truthy key \<and> property_of (keyValMap c) k \<noteq> None then property_of (keyValMap c) k
          else None
      | None \<Rightarrow> None)"

definition scheduleRemoval :: "string \<Rightarrow> 'v cache \<Rightarrow> 'v cache option" where
  "scheduleRemoval k c =
     (if cacheTTL c > 0
      then (if replaces_prototype k then None
            else Some (c\<lparr> timeoutMap := (timeoutMap c)(k \<mapsto> nextHandle c),
                          timers := timers c @ [(nextHandle c, now c + timer_delay (cacheTTL c), k)],
                          nextHandle := nextHandle c + 1 \<rparr>))
      else Some c)"

definition set_cache :: "jstr \<Rightarrow> 'v option \<Rightarrow> 'v cache \<Rightarrow> 'v cache option" where
  "set_cache key val c =
     (case (key, val) of
        (Some k, Some v) \<Rightarrow>
          if truthy key
          then (if replaces_prototype k then None
                else scheduleRemoval k (c\<lparr>keyValMap := (keyValMap c)(k \<mapsto> v)\<rparr>))
          else Some c
      | _ \<Rightarrow> Some c)"

text \<open>
  \<^verbatim>\<open>clearTimeout\<close> takes a pending timer out of the event loop; given anything else
  (a timer that has fired, a function inherited from \<^verbatim>\<open>Object.prototype\<close>) it does
  nothing.
\<close>

definition clearTimeout :: "nat \<Rightarrow> 'v cache \<Rightarrow> 'v cache" where
  "clearTimeout h c = c\<lparr>timers := filter (\<lambda>t. fst t \<noteq> h) (timers c)\<rparr>"

definition extendRemoval :: "string \<Rightarrow> 'v cache \<Rightarrow> 'v cache option" where
  "extendRemoval k c =
     scheduleRemoval k
       (case property_of (timeoutMap c) k of
          Some (Val h) \<Rightarrow> clearTimeout h c
        | Some (Inherited name) \<Rightarrow> c
        | None \<Rightarrow> c)"

definition remove_cache :: "jstr \<Rightarrow> 'v cache \<Rightarrow> 'v cache" where
  "remove_cache key c =
     (case key of
        Some k \<Rightarrow>
          if truthy key \<and> property_of (keyValMap c) k \<noteq> None
          then (let c1 = c\<lparr>keyValMap := (keyValMap c)(k := None)\<rparr>
                in case property_of (timeoutMap c1) k of
                     Some (Val h) \<Rightarrow> (clearTimeout h c1)\<lparr>timeoutMap := (timeoutMap c1)(k := None)\<rparr>
                   | Some (Inherited name) \<Rightarrow> c1
                   | None \<Rightarrow> c1)
          else c
      | None \<Rightarrow> c)"

text \<open>
  The event loop. A pending timer that is due fires once: it leaves the queue and calls
  \<^verbatim>\<open>remove(key)\<close>. Letting time pass up to \<open>t\<close> fires the timers due by then,
  earliest first; a timer cleared by an earlier firing is no longer pending and is
  skipped. Firing never creates a timer.
\<close>

definition fire_timer :: "pending_timer \<Rightarrow> 'v cache \<Rightarrow> 'v cache" where
  "fire_timer tm c =
     (if tm \<in> set (timers c)
      then remove_cache (Some (snd (snd tm)))
             (c\<lparr>timers := remove1 tm (timers c), now := max (now c) (fst (snd tm))\<rparr>)
      else c)"

definition advance :: "nat \<Rightarrow> 'v cache \<Rightarrow> 'v cache" where
  "advance t c =
     (let due = sort_key (\<lambda>tm. fst (snd tm)) (filter (\<lambda>tm. fst (snd tm) \<le> t) (timers c));
          c' = fold fire_timer due c
      in c'\<lparr>now := max (now c') t\<rparr>)"

subsection \<open>What holds of the cache\<close>

lemma not_prototype_name [simp]: "replaces_prototype k \<Longrightarrow> k \<in> set object_prototype_names"
  by (simp add: replaces_prototype_def object_prototype_names_def)

lemma property_of_update: "property_of (m(k \<mapsto> v)) k' = (if k' = k then Some (Val v) else property_of m k')"
  by (simp add: property_of_def)

lemma set_then_get:
  "k \<noteq> [] \<Longrightarrow> set_cache (Some k) (Some v) c = Some c' \<Longrightarrow> get_cache (Some k) c' = Some (Val v)"
  by (auto simp: get_cache_def set_cache_def scheduleRemoval_def truthy_def property_of_update
      split: if_splits)

lemma set_falsy_is_noop:
  "set_cache key None c = Some c" "set_cache None val c = Some c" "set_cache (Some []) val c = Some c"
  by (simp_all add: set_cache_def truthy_def split: option.splits)

lemma get_inherited_member:
  "get_cache (Some ''constructor'') (new_Cache ttl) = Some (Inherited ''constructor'')"
  by (simp add: get_cache_def new_Cache_def property_of_def object_prototype_names_def truthy_def)

lemma remove_then_get:
  "k \<notin> set object_prototype_names \<Longrightarrow> get_cache (Some k) (remove_cache (Some k) c) = None"
  by (auto simp: get_cache_def remove_cache_def clearTimeout_def Let_def property_of_def
      split: option.splits js_member.splits)

text \<open>
  \<^verbatim>\<open>set\<close> overwrites the handle in \<^verbatim>\<open>_timeoutMap\<close> and leaves the timer of the
  earlier insertion pending; \<^verbatim>\<open>extendRemoval\<close> clears it first.
\<close>

lemma set_keeps_old_timer:
  "set_cache (Some k) (Some v) c = Some c' \<Longrightarrow> tm \<in> set (timers c) \<Longrightarrow> tm \<in> set (timers c')"
  by (auto simp: set_cache_def scheduleRemoval_def split: if_splits)

lemma extendRemoval_clears_old_timer:
  "timeoutMap c k = Some h \<Longrightarrow> h < nextHandle c \<Longrightarrow> extendRemoval k c = Some c' \<Longrightarrow>
   cacheTTL c > 0 \<Longrightarrow> \<forall>tm \<in> set (timers c'). fst tm \<noteq> h"
  by (auto simp: extendRemoval_def scheduleRemoval_def clearTimeout_def property_of_def
      split: if_splits)

text \<open>
  A TTL above the largest delay of \<^verbatim>\<open>setTimeout\<close> makes the entry expire after one
  millisecond.
\<close>

lemma oversized_ttl_expires_at_once:
  "map_option (\<lambda>c. get_cache (Some ''k'') (advance 1 c))
     (set_cache (Some ''k'') (Some v) (new_Cache 2147483648)) = Some None"
  by (simp add: set_cache_def scheduleRemoval_def new_Cache_def truthy_def replaces_prototype_def
      timer_delay_def advance_def fire_timer_def remove_cache_def clearTimeout_def get_cache_def
      property_of_def object_prototype_names_def Let_def)

subsection \<open>A run of the cache: two insertions under one key\<close>

text \<open>
  TTL 100 ms. \<^verbatim>\<open>set(k, v1)\<close> at time 0, \<^verbatim>\<open>set(k, v2)\<close> at time 50. The second
  entry should live until 150. The values \<open>v1\<close> and \<open>v2\<close> are named by strings.
\<close>

definition cache_run :: "nat \<Rightarrow> string cache option" where
  "cache_run t =
     (case set_cache (Some ''k'') (Some ''v1'') (new_Cache 100) of
        None \<Rightarrow> None
      | Some c1 \<Rightarrow>
          (case set_cache (Some ''k'') (Some ''v2'') (advance 50 c1) of
             None \<Rightarrow> None
           | Some c2 \<Rightarrow> Some (advance t c2)))"

lemmas cache_defs = advance_def set_cache_def scheduleRemoval_def new_Cache_def truthy_def
  get_cache_def fire_timer_def remove_cache_def clearTimeout_def Let_def property_of_def
  object_prototype_names_def replaces_prototype_def timer_delay_def

lemma cache_run_before_first_timer:
  "map_option (get_cache (Some ''k'')) (cache_run 99) = Some (Some (Val ''v2''))"
  by (simp add: cache_run_def cache_defs)

text \<open>
  Claim C6. The entry created by the second \<^verbatim>\<open>set\<close> is removed 50 ms after its
  insertion, by the timer of the first insertion, which \<^verbatim>\<open>set\<close> did not cancel: at
  time 100, and at every later time, the key is absent, and no timer is left.
\<close>

theorem second_set_expires_early:
  "map_option (get_cache (Some ''k'')) (cache_run 100) = Some None
   \<and> map_option (get_cache (Some ''k'')) (cache_run 120) = Some None
   \<and> map_option now (cache_run 120) = Some 120
   \<and> map_option timers (cache_run 120) = Some []"
  by (simp add: cache_run_def cache_defs)

section \<open>The cached player lookup (\<^verbatim>\<open>helpFormatter.js\<close>, lines 551 to 566)\<close>

text \<open>
  A player record as the upstream returns it: the two identifiers and the rest of the
  record. \<^verbatim>\<open>comlinkStub.getPlayer(allyCode, playerId)\<close> answers with a record or
  rejects. The context holds the player cache and the upstream requests made so far.
  What the function returns is what the cache gave, a stored record or a member
  inherited by \<^verbatim>\<open>_keyValMap\<close>, or the record just fetched.
\<close>

record 'p player =
  allyCode :: jstr
  playerId :: jstr
  profile :: 'p

record 'p player_ctx =
  playerCache :: "'p player cache"
  fetched :: "(jstr \<times> jstr) list"

definition lookup_cached :: "jstr \<Rightarrow> jstr \<Rightarrow> 'p player cache \<Rightarrow> 'p player js_member option" where
  "lookup_cached allyCode_arg playerId_arg c =
     (if truthy allyCode_arg then get_cache allyCode_arg c
      else if truthy playerId_arg then get_cache playerId_arg c
      else None)"

definition getOrFetchCachedPlayer ::
  "(jstr \<Rightarrow> jstr \<Rightarrow> js_error + 'p player) \<Rightarrow> jstr \<Rightarrow> jstr \<Rightarrow> 'p player_ctx
     \<Rightarrow> ((js_error + 'p player js_member) \<times> 'p player_ctx) option"
where
  "getOrFetchCachedPlayer getPlayer allyCode_arg playerId_arg ctx =
     (case lookup_cached allyCode_arg playerId_arg (playerCache ctx) of
        Some player \<Rightarrow> Some (Inr player, ctx)
      | None \<Rightarrow>
          (let ctx1 = ctx\<lparr>fetched := fetched ctx @ [(allyCode_arg, playerId_arg)]\<rparr>
           in case getPlayer allyCode_arg playerId_arg of
                Inl e \<Rightarrow> Some (Inl e, ctx1)
              | Inr player \<Rightarrow>
                  (case set_cache (allyCode player) (Some player) (playerCache ctx1) of
                     None \<Rightarrow> None
                   | Some c1 \<Rightarrow>
                       (case set_cache (playerId player) (Some player) c1 of
                          None \<Rightarrow> None
                        | Some c2 \<Rightarrow> Some (Inr (Val player), ctx1\<lparr>playerCache := c2\<rparr>)))))"

subsection \<open>Firing timers of other keys leaves an entry alone\<close>






subsection \<open>What one insertion does\<close>


subsection \<open>After a miss\<close>





text \<open>
  An instance: an empty cache with a TTL of 30 seconds, a lookup by ally code, and an
  upstream that knows the player.
\<close>

definition sample_player :: "unit player" where
  "sample_player = \<lparr> allyCode = Some ''123456789'', playerId = Some ''pQ7'', profile = () \<rparr>"





text \<open>
  A TTL above the largest \<^verbatim>\<open>setTimeout\<close> delay: one millisecond after the miss the
  record is gone and the next lookup goes upstream again.
\<close>

lemma oversized_ttl_fetches_again:
  "map_option (\<lambda>r. map_option (fetched \<circ> snd)
       (getOrFetchCachedPlayer (\<lambda>a i. Inr sample_player) (Some ''123456789'') None
          ((snd r)\<lparr>playerCache := advance 1 (playerCache (snd r))\<rparr>)))
     (getOrFetchCachedPlayer (\<lambda>a i. Inr sample_player) (Some ''123456789'') None
        \<lparr> playerCache = new_Cache 2147483648, fetched = [] \<rparr>)
   = Some (Some [(Some ''123456789'', None), (Some ''123456789'', None)])"
  by (simp add: getOrFetchCachedPlayer_def lookup_cached_def sample_player_def cache_defs)

subsection \<open>A record without a player id\<close>




section \<open>The bounded-concurrency fetch orchestrator (\<^verbatim>\<open>helpFormatter.js\<close>, lines 438 to 465)\<close>

text \<open>
  \<^verbatim>\<open>execInParallel(parameter, concurrency, callback)\<close> hands the inputs to
  \<^verbatim>\<open>eachLimit\<close> of the \<^verbatim>\<open>async\<close> library, which starts the iteratee on the inputs
  in their order, never more than \<^verbatim>\<open>concurrency\<close> at a time, and calls the final
  callback when every iteratee has settled. The iteratee awaits the callback inside
  \<^verbatim>\<open>try\<close>/\<^verbatim>\<open>catch\<close>: a result is pushed on \<^verbatim>\<open>responses\<close>, an error on
  \<^verbatim>\<open>errors\<close>, and the iteratee itself never rejects, so the final callback receives
  no error. Which of the calls in flight settles next is up to the event loop: the
  model is a step relation, and what is proved holds for every schedule.

  \<open>op\<close> gives the outcome of the callback on an input.
\<close>

record ('a, 'b) exec_state =
  pending :: "'a list"
  inflight :: "'a multiset"
  attempts :: "'a list"
  responses :: "'b list"
  errors :: "js_error list"

definition exec_init :: "'a list \<Rightarrow> ('a, 'b) exec_state" where
  "exec_init parameter =
     \<lparr> pending = parameter, inflight = {#}, attempts = [], responses = [], errors = [] \<rparr>"

definition settle :: "('a \<Rightarrow> js_error + 'b) \<Rightarrow> 'a \<Rightarrow> ('a, 'b) exec_state \<Rightarrow> ('a, 'b) exec_state" where
  "settle op x s =
     (case op x of
        Inr r \<Rightarrow> s\<lparr>inflight := inflight s - {#x#}, responses := responses s @ [r]\<rparr>
      | Inl e \<Rightarrow> s\<lparr>inflight := inflight s - {#x#}, errors := errors s @ [e]\<rparr>)"

inductive exec_step ::
  "nat \<Rightarrow> ('a \<Rightarrow> js_error + 'b) \<Rightarrow> ('a, 'b) exec_state \<Rightarrow> ('a, 'b) exec_state \<Rightarrow> bool"
  for concurrency :: nat and op :: "'a \<Rightarrow> js_error + 'b"
where
  Start:
    "pending s = x # rest \<Longrightarrow> size (inflight s) < concurrency \<Longrightarrow>
     exec_step concurrency op s
       (s\<lparr>pending := rest, inflight := add_mset x (inflight s), attempts := attempts s @ [x]\<rparr>)"
| Settle:
    "x \<in># inflight s \<Longrightarrow> exec_step concurrency op s (settle op x s)"

definition exec_done :: "('a, 'b) exec_state \<Rightarrow> bool" where
  "exec_done s = (pending s = [] \<and> inflight s = {#})"

text \<open>
  The lines after \<^verbatim>\<open>await execPromise\<close>: \<open>final_error\<close> is the argument of the final
  callback.
\<close>

definition exec_return :: "js_error option \<Rightarrow> ('a, 'b) exec_state \<Rightarrow> js_error + 'b list" where
  "exec_return final_error s =
     (case final_error of
        Some error \<Rightarrow> Inl error
      | None \<Rightarrow>
          if length (responses s) = 0 \<and> length (errors s) > 0 then Inl (errors s ! 0)
          else Inr (responses s))"

text \<open>
  \<^verbatim>\<open>execInParallel\<close> as a relation between the call and what it returns or throws,
  with the state in which \<^verbatim>\<open>eachLimit\<close> finished.
\<close>

inductive execInParallel ::
  "'a list \<Rightarrow> nat \<Rightarrow> ('a \<Rightarrow> js_error + 'b) \<Rightarrow> ('a, 'b) exec_state \<Rightarrow> js_error + 'b list \<Rightarrow> bool"
where
  Finished:
    "rtranclp (exec_step concurrency op) (exec_init parameter) s \<Longrightarrow> exec_done s \<Longrightarrow>
     execInParallel parameter concurrency op s (exec_return None s)"

text \<open>The results and the errors of a list of inputs, in the order of the inputs.\<close>

definition successes :: "('a \<Rightarrow> js_error + 'b) \<Rightarrow> 'a list \<Rightarrow> 'b list" where
  "successes op xs = concat (map (\<lambda>x. case op x of Inr r \<Rightarrow> [r] | Inl e \<Rightarrow> []) xs)"

definition failures :: "('a \<Rightarrow> js_error + 'b) \<Rightarrow> 'a list \<Rightarrow> js_error list" where
  "failures op xs = concat (map (\<lambda>x. case op x of Inr r \<Rightarrow> [] | Inl e \<Rightarrow> [e]) xs)"

text \<open>
  A schedule that always exists: one input at a time, each settled before the next
  starts.
\<close>

fun sequential :: "('a \<Rightarrow> js_error + 'b) \<Rightarrow> 'a list \<Rightarrow> ('a, 'b) exec_state \<Rightarrow> ('a, 'b) exec_state" where
  "sequential op [] s = s"
| "sequential op (x # rest) s =
     sequential op rest
       (settle op x (s\<lparr>pending := rest, inflight := add_mset x (inflight s),
                       attempts := attempts s @ [x]\<rparr>))"

definition exec_measure :: "('a, 'b) exec_state \<Rightarrow> nat" where
  "exec_measure s = 2 * length (pending s) + size (inflight s)"

subsection \<open>The invariant of a run\<close>

text \<open>
  The results, respectively the errors, that a multiset of inputs contributes. In every
  reachable state the inputs started so far, followed by the inputs still pending, are
  the input list; and what has been recorded, together with what the calls in flight
  will contribute, is what the started inputs contribute.
\<close>

definition results_of :: "('a \<Rightarrow> js_error + 'b) \<Rightarrow> 'a multiset \<Rightarrow> 'b multiset" where
  "results_of op M = sum_mset (image_mset (\<lambda>x. case op x of Inr r \<Rightarrow> {#r#} | Inl e \<Rightarrow> {#}) M)"

definition errors_of :: "('a \<Rightarrow> js_error + 'b) \<Rightarrow> 'a multiset \<Rightarrow> js_error multiset" where
  "errors_of op M = sum_mset (image_mset (\<lambda>x. case op x of Inr r \<Rightarrow> {#} | Inl e \<Rightarrow> {#e#}) M)"

definition exec_inv :: "('a \<Rightarrow> js_error + 'b) \<Rightarrow> 'a list \<Rightarrow> ('a, 'b) exec_state \<Rightarrow> bool" where
  "exec_inv op xs s =
     (attempts s @ pending s = xs
      \<and> mset (responses s) + results_of op (inflight s) = results_of op (mset (attempts s))
      \<and> mset (errors s) + errors_of op (inflight s) = errors_of op (mset (attempts s)))"

lemma results_of_mset: "results_of op (mset xs) = mset (successes op xs)"
  by (induction xs) (simp_all add: results_of_def successes_def split: sum.splits)

lemma errors_of_mset: "errors_of op (mset xs) = mset (failures op xs)"
  by (induction xs) (simp_all add: errors_of_def failures_def split: sum.splits)

lemma results_of_add: "results_of op (add_mset x M) = results_of op {#x#} + results_of op M"
  by (simp add: results_of_def)

lemma errors_of_add: "errors_of op (add_mset x M) = errors_of op {#x#} + errors_of op M"
  by (simp add: errors_of_def)

lemma exec_inv_init: "exec_inv op xs (exec_init xs)"
  by (simp add: exec_inv_def exec_init_def results_of_def errors_of_def)

lemma exec_inv_step:
  assumes "exec_step n op s s'" and "exec_inv op xs s"
  shows "exec_inv op xs s'"
  using assms
proof (induction rule: exec_step.induct)
  case (Start s x rest)
  then show ?case
    by (simp add: exec_inv_def results_of_def errors_of_def)
next
  case (Settle x s)
  then obtain M where M: "inflight s = add_mset x M"
    by (meson multi_member_split)
  show ?case
  proof (cases "op x")
    case (Inl e)
    with Settle M show ?thesis
      by (simp add: exec_inv_def settle_def results_of_def errors_of_def)
  next
    case (Inr r)
    with Settle M show ?thesis
      by (simp add: exec_inv_def settle_def results_of_def errors_of_def)
  qed
qed

lemma exec_inv_run:
  assumes "rtranclp (exec_step n op) s s'" and "exec_inv op xs s"
  shows "exec_inv op xs s'"
  using assms by (induction rule: rtranclp_induct) (auto intro: exec_inv_step)

lemma exec_done_facts:
  assumes "rtranclp (exec_step n op) (exec_init xs) s" and "exec_done s"
  shows "attempts s = xs" and "mset (responses s) = mset (successes op xs)"
    and "mset (errors s) = mset (failures op xs)"
proof -
  have inv: "exec_inv op xs s"
    using assms(1) exec_inv_init by (rule exec_inv_run)
  show a: "attempts s = xs"
    using inv assms(2) by (simp add: exec_inv_def exec_done_def)
  show "mset (responses s) = mset (successes op xs)"
    using inv assms(2) a by (simp add: exec_inv_def exec_done_def results_of_mset [symmetric] results_of_def)
  show "mset (errors s) = mset (failures op xs)"
    using inv assms(2) a by (simp add: exec_inv_def exec_done_def errors_of_mset [symmetric] errors_of_def)
qed

lemma exec_step_measure: "exec_step n op s s' \<Longrightarrow> exec_measure s' < exec_measure s"
proof (induction rule: exec_step.induct)
  case (Start s x rest)
  then show ?case by (simp add: exec_measure_def)
next
  case (Settle x s)
  then have "size (inflight s - {#x#}) < size (inflight s)"
    by (simp add: size_Diff1_less)
  then show ?case
    by (auto simp: exec_measure_def settle_def split: sum.splits)
qed

lemma exec_progress:
  assumes "1 \<le> n" and "\<not> exec_done s"
  shows "\<exists>s'. exec_step n op s s'"
proof (cases "inflight s = {#}")
  case True
  with assms obtain x rest where "pending s = x # rest"
    by (auto simp: exec_done_def neq_Nil_conv)
  then show ?thesis
    using True assms(1) by (auto intro!: exI exec_step.Start)
next
  case False
  then obtain x where "x \<in># inflight s" by (auto simp: multiset_nonemptyE)
  then show ?thesis by (blast intro: exec_step.Settle)
qed

lemma sequential_run:
  assumes "1 \<le> n" and "pending s = xs" and "inflight s = {#}"
  shows "rtranclp (exec_step n op) s (sequential op xs s) \<and> exec_done (sequential op xs s)"
  using assms(2,3)
proof (induction xs arbitrary: s)
  case Nil
  then show ?case by (simp add: exec_done_def)
next
  case (Cons x rest)
  define s1 where "s1 = s\<lparr>pending := rest, inflight := add_mset x (inflight s), attempts := attempts s @ [x]\<rparr>"
  have st1: "exec_step n op s s1"
    unfolding s1_def using Cons.prems assms(1) by (intro exec_step.Start) auto
  have "x \<in># inflight s1" by (simp add: s1_def)
  then have st2: "exec_step n op s1 (settle op x s1)"
    by (rule exec_step.Settle)
  have p: "pending (settle op x s1) = rest" "inflight (settle op x s1) = {#}"
    using Cons.prems by (auto simp: settle_def s1_def split: sum.splits)
  from Cons.IH [OF p]
  have "rtranclp (exec_step n op) (settle op x s1) (sequential op rest (settle op x s1))"
    and d: "exec_done (sequential op rest (settle op x s1))" by auto
  with st1 st2 have "rtranclp (exec_step n op) s (sequential op rest (settle op x s1))"
    by (meson converse_rtranclp_into_rtranclp)
  with d show ?case by (simp add: s1_def)
qed


text \<open>
  Claim C2. Let the concurrency limit be at least 1. Then the call returns: a finishing
  schedule exists, a state that is not finished can always take a step, and every step
  lowers a natural-number measure, so no schedule runs forever. And whenever it has
  finished, every input has been attempted exactly once (the attempts are the input
  list), the results list holds exactly the results of the inputs that succeeded and
  the errors list exactly the errors of those that failed; the call returns the results
  list when it is non-empty, throws the first recorded error when the results list is
  empty and the errors list is not, and returns the empty list when both are empty.
\<close>

theorem execInParallel_policy:
  assumes "1 \<le> n"
  shows "(\<exists>s outcome. execInParallel xs n op s outcome)
    \<and> (\<forall>s. rtranclp (exec_step n op) (exec_init xs) s \<and> \<not> exec_done s \<longrightarrow> (\<exists>s'. exec_step n op s s'))
    \<and> (\<forall>s s'. exec_step n op s s' \<longrightarrow> exec_measure s' < exec_measure s)
    \<and> (\<forall>s outcome. execInParallel xs n op s outcome \<longrightarrow>
          attempts s = xs
          \<and> mset (responses s) = mset (successes op xs)
          \<and> mset (errors s) = mset (failures op xs)
          \<and> (if responses s \<noteq> [] then outcome = Inr (responses s)
              else if errors s \<noteq> [] then outcome = Inl (hd (errors s)) \<and> hd (errors s) \<in> set (failures op xs)
              else outcome = Inr []))"
proof (intro conjI allI impI)
  have "pending (exec_init xs :: ('a, 'b) exec_state) = xs" "inflight (exec_init xs :: ('a, 'b) exec_state) = {#}"
    by (simp_all add: exec_init_def)
  from sequential_run [OF assms this]
  show "\<exists>s outcome. execInParallel xs n op s outcome"
    by (blast intro: execInParallel.intros)
next
  fix s :: "('a, 'b) exec_state"
  assume "rtranclp (exec_step n op) (exec_init xs) s \<and> \<not> exec_done s"
  then show "\<exists>s'. exec_step n op s s'"
    using assms exec_progress by blast
next
  fix s s' :: "('a, 'b) exec_state"
  assume "exec_step n op s s'"
  then show "exec_measure s' < exec_measure s"
    by (rule exec_step_measure)
next
  fix s :: "('a, 'b) exec_state" and outcome
  assume run: "execInParallel xs n op s outcome"
  then have r: "rtranclp (exec_step n op) (exec_init xs) s" and d: "exec_done s"
    and out: "outcome = exec_return None s"
    by (auto elim: execInParallel.cases)
  show "attempts s = xs"
    using r d by (rule exec_done_facts)
  show "mset (responses s) = mset (successes op xs)"
    using r d by (rule exec_done_facts)
  show e: "mset (errors s) = mset (failures op xs)"
    using r d by (rule exec_done_facts)
  have "errors s \<noteq> [] \<Longrightarrow> hd (errors s) \<in> set (failures op xs)"
  proof -
    assume "errors s \<noteq> []"
    then have "hd (errors s) \<in> set (errors s)" by simp
    then show ?thesis using e by (metis set_mset_mset)
  qed
  then show "if responses s \<noteq> [] then outcome = Inr (responses s)
      else if errors s \<noteq> [] then outcome = Inl (hd (errors s)) \<and> hd (errors s) \<in> set (failures op xs)
      else outcome = Inr []"
    by (auto simp: out exec_return_def hd_conv_nth)
qed

subsection \<open>The scenario: three inputs, limit 2, the second fails\<close>

definition op3 :: "nat \<Rightarrow> js_error + nat" where
  "op3 x = (if x = 2 then Inl (UpstreamError ''b'') else Inr (10 * x))"

definition run3 :: "nat \<Rightarrow> (nat, nat) exec_state" where
  "run3 k =
     [ \<lparr> pending = [1, 2, 3], inflight = {#}, attempts = [], responses = [], errors = [] \<rparr>,
       \<lparr> pending = [2, 3], inflight = {#1#}, attempts = [1], responses = [], errors = [] \<rparr>,
       \<lparr> pending = [3], inflight = {#2, 1#}, attempts = [1, 2], responses = [], errors = [] \<rparr>,
       \<lparr> pending = [3], inflight = {#1#}, attempts = [1, 2], responses = [],
         errors = [UpstreamError ''b''] \<rparr>,
       \<lparr> pending = [], inflight = {#3, 1#}, attempts = [1, 2, 3], responses = [],
         errors = [UpstreamError ''b''] \<rparr>,
       \<lparr> pending = [], inflight = {#1#}, attempts = [1, 2, 3], responses = [30],
         errors = [UpstreamError ''b''] \<rparr>,
       \<lparr> pending = [], inflight = {#}, attempts = [1, 2, 3], responses = [30, 10],
         errors = [UpstreamError ''b''] \<rparr> ] ! k"

lemma run3_steps:
  "exec_step 2 op3 (run3 0) (run3 1)" "exec_step 2 op3 (run3 1) (run3 2)"
  "exec_step 2 op3 (run3 2) (run3 3)" "exec_step 2 op3 (run3 3) (run3 4)"
  "exec_step 2 op3 (run3 4) (run3 5)" "exec_step 2 op3 (run3 5) (run3 6)"
proof -
  show "exec_step 2 op3 (run3 0) (run3 1)"
    using exec_step.Start [of "run3 0" 1 "[2, 3]" 2 op3] by (simp add: run3_def)
  show "exec_step 2 op3 (run3 1) (run3 2)"
    using exec_step.Start [of "run3 1" 2 "[3]" 2 op3] by (simp add: run3_def)
  show "exec_step 2 op3 (run3 2) (run3 3)"
    using exec_step.Settle [of 2 "run3 2" 2 op3] by (simp add: run3_def settle_def op3_def)
  show "exec_step 2 op3 (run3 3) (run3 4)"
    using exec_step.Start [of "run3 3" 3 "[]" 2 op3] by (simp add: run3_def)
  show "exec_step 2 op3 (run3 4) (run3 5)"
    using exec_step.Settle [of 3 "run3 4" 2 op3] by (simp add: run3_def settle_def op3_def)
  show "exec_step 2 op3 (run3 5) (run3 6)"
    using exec_step.Settle [of 1 "run3 5" 2 op3] by (simp add: run3_def settle_def op3_def)
qed

lemma run3_finished: "execInParallel [1, 2, 3] 2 op3 (run3 6) (Inr [30, 10])"
proof -
  have "rtranclp (exec_step 2 op3) (run3 0) (run3 6)"
    using run3_steps by (meson rtranclp.rtrancl_into_rtrancl rtranclp.rtrancl_refl)
  moreover have "run3 0 = exec_init [1, 2, 3]"
    by (simp add: run3_def exec_init_def)
  moreover have "exec_done (run3 6)"
    by (simp add: run3_def exec_done_def)
  ultimately have "execInParallel [1, 2, 3] 2 op3 (run3 6) (exec_return None (run3 6))"
    by (simp add: execInParallel.intros)
  then show ?thesis
    by (simp add: exec_return_def run3_def)
qed

theorem execInParallel_policy_witness:
  "(1::nat) \<le> 2
   \<and> execInParallel [1, 2, 3] 2 op3 (run3 6) (Inr [30, 10])
   \<and> attempts (run3 6) = [1, 2, 3]
   \<and> mset (responses (run3 6)) = mset (successes op3 [1, 2, 3])
   \<and> successes op3 [1, 2, 3] = [10, 30]
   \<and> failures op3 [1, 2, 3] = [UpstreamError ''b'']"
proof -
  have h: "(1::nat) \<le> 2" by simp
  have "attempts (run3 6) = [1, 2, 3] \<and> mset (responses (run3 6)) = mset (successes op3 [1, 2, 3])"
    using execInParallel_policy [OF h, of "[1, 2, 3]" op3] run3_finished by blast
  then show ?thesis
    using run3_finished by (simp add: successes_def failures_def op3_def)
qed

section \<open>The persistent store and the upstream client\<close>

text \<open>
  What a file of the store holds after \<^verbatim>\<open>JSON.parse\<close>: a versioned document
  \<^verbatim>\<open>{version, data}\<close> of a collection or of a language, the version record
  \<^verbatim>\<open>{versionString, files}\<close>, the record \<^verbatim>\<open>{versionString}\<close> of the localization
  track, a bare lookup table, or text that does not parse. Game records as the upstream
  sends them have type \<open>'r\<close>, records in the shape the service stores have type
  \<open>'d\<close>, lookup tables type \<open>'m\<close>.
\<close>

datatype ('d, 'm) json_doc =
    Collection jstr "'d list"
  | Language jstr lang_map
  | GameDataVersion jstr "string list"
  | LocalizationVersion jstr
  | LookupMap 'm
  | Corrupt

text \<open>\<^verbatim>\<open>response.version\<close> and \<^verbatim>\<open>response.data\<close> of a parsed file.\<close>

definition doc_version :: "('d, 'm) json_doc \<Rightarrow> jstr" where
  "doc_version doc = (case doc of Collection v ds \<Rightarrow> v | Language v m \<Rightarrow> v | _ \<Rightarrow> None)"

datatype ('d, 'm) file_data =
    Records "'d list"
  | LangData lang_map
  | NoData
  | Whole "('d, 'm) json_doc"
  | EmptyObject

definition doc_data :: "('d, 'm) json_doc \<Rightarrow> ('d, 'm) file_data" where
  "doc_data doc =
     (case doc of Collection v ds \<Rightarrow> Records ds | Language v m \<Rightarrow> LangData m | _ \<Rightarrow> NoData)"

text \<open>
  One entry of a localization bundle: a file of the decompressed archive, read as a
  stream of lines, or the text of a pre-expanded file.
\<close>

datatype bundle_content = StreamOf "string list" | TextOf string

text \<open>
  The surroundings of the engine. Every request to the upstream client and every file
  operation happens at an instant, the number of I/O operations made before it; the
  upstream answers and the faults of the file system may depend on the instant, so an
  upstream or a disk that fails now and works later is covered. The record-reshaping
  functions of \<^verbatim>\<open>utils.js\<close> (\<^verbatim>\<open>convertToHelpFormat\<close>, the filter of
  \<^verbatim>\<open>match\<close>, \<^verbatim>\<open>project\<close>) and the loops that fill the four lookup tables from the
  five lists are parameters: the claims do not depend on what they compute.
\<close>

record ('r, 'd, 'm) env =
  up_getMetaData :: "nat \<Rightarrow> js_error + meta"
  up_getGameData :: "nat \<Rightarrow> jstr \<Rightarrow> jstr \<Rightarrow> js_error + (string \<times> 'r list) list"
  up_getEnums :: "nat \<Rightarrow> js_error + (string \<times> jstr) list"
  up_getLocalizationBundle :: "nat \<Rightarrow> jstr \<Rightarrow> bool \<Rightarrow> js_error + (string \<times> bundle_content) list"
  fs_read_error :: "nat \<Rightarrow> string \<Rightarrow> js_error option"
  fs_write_error :: "nat \<Rightarrow> string \<Rightarrow> js_error option"
  utils_convertToHelpFormat :: "'r \<Rightarrow> 'd"
  utils_match :: "string \<Rightarrow> 'd \<Rightarrow> bool"
  utils_project :: "string \<Rightarrow> 'd \<Rightarrow> 'd"
  lookup_tables :: "'d list \<Rightarrow> 'd list \<Rightarrow> 'd list \<Rightarrow> 'd list \<Rightarrow> 'd list \<Rightarrow> js_error + ('m \<times> 'm \<times> 'm \<times> 'm)"

text \<open>
  The state: the formatter object, the files of the store, the instant, and the names
  given to \<^verbatim>\<open>writeFile\<close> so far.
\<close>

record ('d, 'm) world =
  this :: help_formatter
  disk :: "string \<rightharpoonup> ('d, 'm) json_doc"
  clock :: nat
  writes :: "string list"

subsection \<open>Asynchronous code as state passing with errors\<close>

text \<open>
  An \<^verbatim>\<open>async\<close> function takes the state and gives the outcome of its promise,
  \<open>Inl\<close> for a rejection, with the state it leaves. The result \<open>None\<close> is kept for a
  computation that is cut off because the nesting of self-healing reads inside forced
  synchronisations exceeds the bound given to \<open>updateCheck\<close> below.
\<close>

type_synonym ('a, 'w) io = "'w \<Rightarrow> ((js_error + 'a) \<times> 'w) option"

definition io_return :: "'a \<Rightarrow> ('a, 'w) io" where
  "io_return x = (\<lambda>w. Some (Inr x, w))"

definition io_throw :: "js_error \<Rightarrow> ('a, 'w) io" where
  "io_throw e = (\<lambda>w. Some (Inl e, w))"

definition io_bind :: "('a, 'w) io \<Rightarrow> ('a \<Rightarrow> ('b, 'w) io) \<Rightarrow> ('b, 'w) io" where
  "io_bind m f =
     (\<lambda>w. case m w of
             None \<Rightarrow> None
           | Some (Inl e, w') \<Rightarrow> Some (Inl e, w')
           | Some (Inr x, w') \<Rightarrow> f x w')"

definition io_catch :: "('a, 'w) io \<Rightarrow> (js_error \<Rightarrow> ('a, 'w) io) \<Rightarrow> ('a, 'w) io" where
  "io_catch m handler =
     (\<lambda>w. case m w of
             None \<Rightarrow> None
           | Some (Inl e, w') \<Rightarrow> handler e w'
           | Some (Inr x, w') \<Rightarrow> Some (Inr x, w'))"

definition io_get :: "('w, 'w) io" where
  "io_get = (\<lambda>w. Some (Inr w, w))"

definition io_modify :: "('w \<Rightarrow> 'w) \<Rightarrow> (unit, 'w) io" where
  "io_modify f = (\<lambda>w. Some (Inr (), f w))"

definition io_lift :: "js_error + 'a \<Rightarrow> ('a, 'w) io" where
  "io_lift r = (\<lambda>w. Some (r, w))"

text \<open>A \<^verbatim>\<open>for ... of\<close> loop whose body awaits: it stops at the first rejection.\<close>

fun io_foreach :: "('a \<Rightarrow> 'b \<Rightarrow> ('b, 'w) io) \<Rightarrow> 'a list \<Rightarrow> 'b \<Rightarrow> ('b, 'w) io" where
  "io_foreach body [] acc = io_return acc"
| "io_foreach body (x # xs) acc = io_bind (body x acc) (io_foreach body xs)"

subsection \<open>File operations and upstream requests\<close>

text \<open>
  \<^verbatim>\<open>utils.readFile\<close> rejects when the file system does, when the file is absent
  and when its text does not parse. \<^verbatim>\<open>utils.writeFile\<close> replaces the file.
\<close>

definition readFile :: "('r, 'd, 'm) env \<Rightarrow> string \<Rightarrow> (('d, 'm) json_doc, ('d, 'm) world) io" where
  "readFile env fileName =
     (\<lambda>w. Some
        (case fs_read_error env (clock w) fileName of
           Some e \<Rightarrow> Inl e
         | None \<Rightarrow>
             (case disk w fileName of
                None \<Rightarrow> Inl (IOError (''ENOENT: no such file '' @ fileName))
              | Some Corrupt \<Rightarrow> Inl (SyntaxError (''Unexpected token in '' @ fileName))
              | Some doc \<Rightarrow> Inr doc),
         w\<lparr>clock := Suc (clock w)\<rparr>))"

definition writeFile ::
  "('r, 'd, 'm) env \<Rightarrow> string \<Rightarrow> ('d, 'm) json_doc \<Rightarrow> (unit, ('d, 'm) world) io"
where
  "writeFile env fileName jsonContents =
     (\<lambda>w. Some
        (case fs_write_error env (clock w) fileName of
           Some e \<Rightarrow> (Inl e, w\<lparr>clock := Suc (clock w), writes := writes w @ [fileName]\<rparr>)
         | None \<Rightarrow>
             (Inr (), w\<lparr>clock := Suc (clock w), writes := writes w @ [fileName],
                         disk := (disk w)(fileName \<mapsto> jsonContents)\<rparr>)))"

definition request :: "(nat \<Rightarrow> js_error + 'a) \<Rightarrow> ('a, ('d, 'm) world) io" where
  "request answer = (\<lambda>w. Some (answer (clock w), w\<lparr>clock := Suc (clock w)\<rparr>))"

section \<open>The synchronisation engine (\<^verbatim>\<open>helpFormatter.js\<close>, lines 226 to 361 and 878 to 1029)\<close>

subsection \<open>Names of collections and languages\<close>

text \<open>
  \<^verbatim>\<open>getGameData\<close> strips a trailing \<^verbatim>\<open>List\<close> from the requested collection
  (\<^verbatim>\<open>/(.*)List$/\<close>).
\<close>

definition stripList :: "string \<Rightarrow> string" where
  "stripList s =
     (if 4 \<le> length s \<and> drop (length s - 4) s = ''List'' then take (length s - 4) s else s)"

definition lower_char :: "char \<Rightarrow> char" where
  "lower_char c =
     (case map_of (zip ''ABCDEFGHIJKLMNOPQRSTUVWXYZ'' ''abcdefghijklmnopqrstuvwxyz'') c of
        None \<Rightarrow> c | Some l \<Rightarrow> l)"

text \<open>
  \<^verbatim>\<open>language.replace(/(Loc_)|(.txt)/gi, '')\<close>: going from left to right, every
  \<^verbatim>\<open>Loc_\<close> and every character followed by \<^verbatim>\<open>txt\<close> (the dot of the pattern is not
  escaped), in any case, is removed.
\<close>

function replaceLoc :: "string \<Rightarrow> string" where
  "replaceLoc s =
     (if s = [] then []
      else if map lower_char (take 4 s) = ''loc_'' then replaceLoc (drop 4 s)
      else if hd s \<notin> {CHR 0x0A, CHR 0x0D} \<and> map lower_char (take 3 (tl s)) = ''txt''
           then replaceLoc (drop 4 s)
      else hd s # replaceLoc (tl s))"
  by pat_completeness auto
termination
  by (relation "measure length") auto

declare replaceLoc.simps [simp del]

subsection \<open>Staleness\<close>

definition gameDataNeedsUpdate :: "help_formatter \<Rightarrow> jstr \<Rightarrow> bool \<Rightarrow> bool" where
  "gameDataNeedsUpdate self versionString force =
     (force \<or> \<not> isStringEqual (game (version self)) versionString)"

definition localizationNeedsUpdate :: "help_formatter \<Rightarrow> jstr \<Rightarrow> bool \<Rightarrow> bool" where
  "localizationNeedsUpdate self versionString force =
     (force \<or> \<not> isStringEqual (language (version self)) versionString)"

subsection \<open>The self-healing read\<close>

text \<open>
  \<^verbatim>\<open>getDataFile\<close> calls \<^verbatim>\<open>this.updateCheck(null, null, true)\<close>, which in turn reads
  collections through \<^verbatim>\<open>getDataFile\<close> when it rebuilds the lookup tables. The
  functions of this cycle take the \<^verbatim>\<open>updateCheck\<close> they call as the argument
  \<open>updateCheck_ref\<close>; the cycle is closed at the end of the section.
\<close>

type_synonym ('d, 'm) update_check =
  "jstr \<Rightarrow> jstr \<Rightarrow> bool \<Rightarrow> (version_state, ('d, 'm) world) io"

lemma io_bind_cong [fundef_cong]:
  "m = m' \<Longrightarrow> (\<And>x. f x = f' x) \<Longrightarrow> io_bind m f = io_bind m' f'"
proof -
  assume "m = m'" and "\<And>x. f x = f' x"
  then have "f = f'" by (simp add: fun_eq_iff)
  with \<open>m = m'\<close> show ?thesis by simp
qed

function getDataFile ::
  "('r, 'd, 'm) env \<Rightarrow> ('d, 'm) update_check \<Rightarrow> string \<Rightarrow> jstr \<Rightarrow> bool
     \<Rightarrow> (('d, 'm) file_data, ('d, 'm) world) io"
where
  "getDataFile env updateCheck_ref collection expectedVersion retry =
     io_bind
       (io_catch
          (io_bind (readFile env collection)
             (\<lambda>response.
                if expectedVersion \<noteq> doc_version response
                then io_return (Whole response, True)
                else io_return (doc_data response, False)))
          (\<lambda>error.
             if retry
             then io_throw (Error (''Unable to load game data collection '' @ collection))
             else io_return (EmptyObject, True)))
       (\<lambda>read.
          if snd read \<and> \<not> retry
          then io_bind (updateCheck_ref None None True)
                 (\<lambda>_. getDataFile env updateCheck_ref collection expectedVersion True)
          else io_return (fst read))"
  by pat_completeness auto
termination
  by (relation "measure (\<lambda>(env, uc, c, v, retry). if retry then 0 else 1)") auto

declare getDataFile.simps [simp del]

subsection \<open>Reading a collection for a request\<close>

text \<open>
  The options of \<^verbatim>\<open>getGameData\<close> that the engine uses: the collection, the filter
  that \<^verbatim>\<open>utils.match(options.match)\<close> builds (the default \<^verbatim>\<open>match: {}\<close> lets every
  record pass) and the projection. \<^verbatim>\<open>this.match\<close> calls \<^verbatim>\<open>response.filter\<close>, which
  only an array has.
\<close>

record 'd game_options =
  collection :: string
  matchFilter :: "'d \<Rightarrow> bool"
  projection :: "'d \<Rightarrow> 'd"

definition getGameData ::
  "('r, 'd, 'm) env \<Rightarrow> ('d, 'm) update_check \<Rightarrow> 'd game_options \<Rightarrow> ('d list, ('d, 'm) world) io"
where
  "getGameData env updateCheck_ref options =
     io_bind io_get
       (\<lambda>w. case gameFiles (version (this w)) of
               None \<Rightarrow> io_throw (TypeError ''Cannot read properties of undefined (reading includes)'')
             | Some files \<Rightarrow>
                 if stripList (collection options) \<notin> set files
                 then io_throw (Error (collection options @ '' is not a valid game data collection''))
                 else io_bind
                        (getDataFile env updateCheck_ref (stripList (collection options))
                           (game (version (this w))) False)
                        (\<lambda>response.
                           case response of
                             Records ds \<Rightarrow>
                               io_return (map (projection options) (filter (matchFilter options) ds))
                           | _ \<Rightarrow> io_throw (TypeError ''response.filter is not a function'')))"

subsection \<open>Rebuilding the lookup tables\<close>

definition collection_options :: "('r, 'd, 'm) env \<Rightarrow> string \<Rightarrow> 'd game_options" where
  "collection_options env name =
     \<lparr> collection = name, matchFilter = utils_match env name, projection = utils_project env name \<rparr>"

definition updateCachedData ::
  "('r, 'd, 'm) env \<Rightarrow> ('d, 'm) update_check \<Rightarrow> (unit, ('d, 'm) world) io"
where
  "updateCachedData env updateCheck_ref =
     io_bind (getGameData env updateCheck_ref (collection_options env ''units'')) (\<lambda>unitList.
     io_bind (getGameData env updateCheck_ref (collection_options env ''skill'')) (\<lambda>skillList.
     io_bind (getGameData env updateCheck_ref (collection_options env ''ability'')) (\<lambda>abilityList.
     io_bind (getGameData env updateCheck_ref (collection_options env ''equipment'')) (\<lambda>equipmentList.
     io_bind (getGameData env updateCheck_ref (collection_options env ''statMod'')) (\<lambda>modList.
     io_bind (io_lift (lookup_tables env unitList skillList abilityList equipmentList modList))
       (\<lambda>tables.
     io_bind (writeFile env ''unitMap'' (LookupMap (fst tables))) (\<lambda>_.
     io_bind (writeFile env ''equipMap'' (LookupMap (fst (snd tables)))) (\<lambda>_.
     io_bind (writeFile env ''skillMap'' (LookupMap (fst (snd (snd tables))))) (\<lambda>_.
     writeFile env ''modMap'' (LookupMap (snd (snd (snd tables)))))))))))))"

subsection \<open>Updating the game data\<close>

text \<open>
  The loop body shared by both fetch modes: persist one collection under the new
  version and push its name on \<^verbatim>\<open>files\<close>.
\<close>

definition persistCollection ::
  "('r, 'd, 'm) env \<Rightarrow> jstr \<Rightarrow> string \<Rightarrow> 'r list \<Rightarrow> string list \<Rightarrow> (string list, ('d, 'm) world) io"
where
  "persistCollection env versionString key val files =
     io_bind
       (writeFile env key (Collection versionString (map (utils_convertToHelpFormat env) val)))
       (\<lambda>_. io_return (files @ [key]))"

text \<open>
  Segmented mode (lines 241 to 260). The enumeration comes from
  \<^verbatim>\<open>this.clientStub.getEnums()\<close>; the loop leaves out the last segment and every
  falsy one, and the inner loop skips a collection that is missing or empty.
\<close>

definition fetchSegments ::
  "('r, 'd, 'm) env \<Rightarrow> help_formatter \<Rightarrow> jstr \<Rightarrow> (string list, ('d, 'm) world) io"
where
  "fetchSegments env self versionString =
     (case clientStub self of
        None \<Rightarrow> io_throw (TypeError ''Cannot read properties of undefined (reading getEnums)'')
      | Some stub \<Rightarrow>
          io_bind (request (up_getEnums env))
            (\<lambda>segments.
               io_foreach
                 (\<lambda>segment files.
                    if \<not> truthy (snd segment) then io_return files
                    else io_bind (request (\<lambda>t. up_getGameData env t versionString (snd segment)))
                           (\<lambda>gameData.
                              io_foreach
                                (\<lambda>entry files.
                                   if snd entry = [] then io_return files
                                   else persistCollection env versionString (fst entry) (snd entry) files)
                                gameData files))
                 (take (length segments - 1) segments) []))"

text \<open>Whole mode (lines 263 to 272): every entry of the answer is persisted.\<close>

definition fetchWhole ::
  "('r, 'd, 'm) env \<Rightarrow> jstr \<Rightarrow> (string list, ('d, 'm) world) io"
where
  "fetchWhole env versionString =
     io_bind (request (\<lambda>t. up_getGameData env t versionString None))
       (\<lambda>gameData.
          io_foreach
            (\<lambda>entry files. persistCollection env versionString (fst entry) (snd entry) files)
            gameData [])"

text \<open>
  Lines 236 to 278: fetch, persist the collections, persist the version record. The
  result is the list \<^verbatim>\<open>files\<close>.
\<close>

definition fetchAndPersist ::
  "('r, 'd, 'm) env \<Rightarrow> jstr \<Rightarrow> (string list, ('d, 'm) world) io"
where
  "fetchAndPersist env versionString =
     io_bind io_get (\<lambda>w.
     io_bind (if useSegments (this w) then fetchSegments env (this w) versionString
              else fetchWhole env versionString) (\<lambda>files.
     io_bind (writeFile env ''gameDataVersion'' (GameDataVersion versionString files)) (\<lambda>_.
     io_return files)))"

definition set_game_version :: "jstr \<Rightarrow> string list \<Rightarrow> ('d, 'm) world \<Rightarrow> ('d, 'm) world" where
  "set_game_version versionString files w =
     w\<lparr>this := (this w)\<lparr>version := (version (this w))\<lparr>game := versionString, gameFiles := Some files\<rparr>\<rparr>\<rparr>"

definition updateGameData ::
  "('r, 'd, 'm) env \<Rightarrow> ('d, 'm) update_check \<Rightarrow> jstr \<Rightarrow> (unit, ('d, 'm) world) io"
where
  "updateGameData env updateCheck_ref versionString =
     io_bind (fetchAndPersist env versionString) (\<lambda>files.
     io_bind (io_modify (set_game_version versionString files)) (\<lambda>_.
     updateCachedData env updateCheck_ref))"

subsection \<open>Updating the localization\<close>

definition set_langMap :: "string \<Rightarrow> lang_map \<Rightarrow> ('d, 'm) world \<Rightarrow> ('d, 'm) world" where
  "set_langMap lang langMap w = w\<lparr>this := (this w)\<lparr>langMaps := (langMaps (this w))(lang \<mapsto> langMap)\<rparr>\<rparr>"

definition clear_langMaps :: "('d, 'm) world \<Rightarrow> ('d, 'm) world" where
  "clear_langMaps w = w\<lparr>this := (this w)\<lparr>langMaps := Map.empty\<rparr>\<rparr>"

definition set_language_version :: "jstr \<Rightarrow> ('d, 'm) world \<Rightarrow> ('d, 'm) world" where
  "set_language_version versionString w =
     w\<lparr>this := (this w)\<lparr>version := (version (this w))\<lparr>language := versionString\<rparr>\<rparr>\<rparr>"

text \<open>
  The body of the loop over the bundle (lines 309 to 332). Which parser runs depends on
  the flag, not on the entry: a stream has no \<^verbatim>\<open>split\<close> and a text no
  \<^verbatim>\<open>nodeStream\<close>.
\<close>

definition parseBundleEntry :: "bool \<Rightarrow> bundle_content \<Rightarrow> js_error + lang_map" where
  "parseBundleEntry unzip content =
     (if \<not> unzip
      then (case content of
              StreamOf ls \<Rightarrow> Inr (processStreamByLine ls)
            | TextOf s \<Rightarrow> Inl (TypeError ''content.nodeStream is not a function''))
      else (case content of
              TextOf s \<Rightarrow> processFileContentsByLine s
            | StreamOf ls \<Rightarrow> Inl (TypeError ''content.split is not a function'')))"

definition updateLanguage ::
  "('r, 'd, 'm) env \<Rightarrow> help_formatter \<Rightarrow> jstr \<Rightarrow> string \<times> bundle_content \<Rightarrow> unit
     \<Rightarrow> (unit, ('d, 'm) world) io"
where
  "updateLanguage env self versionString entry u =
     (if replaceLoc (fst entry) \<notin> set (languages self) then io_return ()
      else io_bind (io_lift (parseBundleEntry (useUnzip self) (snd entry))) (\<lambda>langMap.
           io_bind (io_modify (set_langMap (replaceLoc (fst entry)) langMap)) (\<lambda>_.
           io_bind (writeFile env (replaceLoc (fst entry)) (Language versionString langMap)) (\<lambda>_.
           io_modify (set_language_version versionString)))))"

definition updateLocalizationBundle ::
  "('r, 'd, 'm) env \<Rightarrow> jstr \<Rightarrow> (unit, ('d, 'm) world) io"
where
  "updateLocalizationBundle env versionString =
     io_bind io_get (\<lambda>w.
       if noLocalization (this w) then io_return ()
       else io_bind
              (request (\<lambda>t. up_getLocalizationBundle env t versionString (useUnzip (this w))))
              (\<lambda>localizationBundle.
           io_bind (io_modify clear_langMaps) (\<lambda>_.
           io_bind (io_foreach (updateLanguage env (this w) versionString) localizationBundle ()) (\<lambda>_.
           writeFile env ''localizationVersion'' (LocalizationVersion versionString)))))"

subsection \<open>The entry point\<close>

definition updateCheck_body ::
  "('r, 'd, 'm) env \<Rightarrow> ('d, 'm) update_check \<Rightarrow> ('d, 'm) update_check"
where
  "updateCheck_body env updateCheck_ref gameVersion localizationVersion force =
     io_bind
       (if force \<or> \<not> truthy gameVersion \<or> \<not> truthy localizationVersion
        then io_bind (request (up_getMetaData env))
               (\<lambda>metaData. io_return (latestGamedataVersion metaData,
                                       latestLocalizationBundleVersion metaData))
        else io_return (gameVersion, localizationVersion))
       (\<lambda>versions.
     io_bind io_get (\<lambda>w.
     io_bind
       (if gameDataNeedsUpdate (this w) (fst versions) force
           \<or> gameFiles (version (this w)) = None
           \<or> gameFiles (version (this w)) = Some []
        then updateGameData env updateCheck_ref (fst versions)
        else io_return ()) (\<lambda>_.
     io_bind io_get (\<lambda>w.
     io_bind
       (if localizationNeedsUpdate (this w) (snd versions) force
        then updateLocalizationBundle env (snd versions)
        else io_return ()) (\<lambda>_.
     io_bind io_get (\<lambda>w.
     io_return (version (this w))))))))"

text \<open>
  Closing the cycle. \<open>cut_off\<close> stands in for an \<^verbatim>\<open>updateCheck\<close> that is not
  followed: a run that calls it has the result \<open>None\<close>, so a run with \<open>cut_off\<close>
  that has a result is a run in which no self-healing read started a forced
  synchronisation. \<open>updateCheck env n\<close> is \<^verbatim>\<open>updateCheck\<close> in which forced
  synchronisations started by self-healing reads nest at most \<open>n\<close> deep; a deeper
  nesting gives \<open>None\<close>.
\<close>

definition cut_off :: "('d, 'm) update_check" where
  "cut_off = (\<lambda>gameVersion localizationVersion force w. None)"

primrec updateCheck :: "('r, 'd, 'm) env \<Rightarrow> nat \<Rightarrow> ('d, 'm) update_check" where
  "updateCheck env 0 = updateCheck_body env cut_off"
| "updateCheck env (Suc n) = updateCheck_body env (updateCheck env n)"

section \<open>What holds of the engine\<close>

subsection \<open>The self-healing read, case by case\<close>

lemma readFile_total: "\<exists>r. readFile env name w = Some (r, w\<lparr>clock := Suc (clock w)\<rparr>)"
  by (simp add: readFile_def)

text \<open>The retry: one read, no synchronisation, whatever \<open>updateCheck_ref\<close> is.\<close>

lemma getDataFile_retry:
  "getDataFile env uc c v True w =
     (case readFile env c w of
        None \<Rightarrow> None
      | Some (Inl e, w1) \<Rightarrow> Some (Inl (Error (''Unable to load game data collection '' @ c)), w1)
      | Some (Inr doc, w1) \<Rightarrow>
          Some (Inr (if v \<noteq> doc_version doc then Whole doc else doc_data doc), w1))"
  by (subst getDataFile.simps)
    (auto simp: io_bind_def io_catch_def io_return_def io_throw_def split: option.splits sum.splits)

lemma getDataFile_first:
  "getDataFile env uc c v False w =
     (case readFile env c w of
        None \<Rightarrow> None
      | Some (r, w1) \<Rightarrow>
          if (case r of Inl e \<Rightarrow> False | Inr doc \<Rightarrow> v = doc_version doc)
          then Some (map_sum id doc_data r, w1)
          else (case uc None None True w1 of
                  None \<Rightarrow> None
                | Some (Inl e, w2) \<Rightarrow> Some (Inl e, w2)
                | Some (Inr vs, w2) \<Rightarrow> getDataFile env uc c v True w2))"
  by (subst getDataFile.simps)
    (auto simp: io_bind_def io_catch_def io_return_def io_throw_def split: option.splits sum.splits)

lemma getDataFile_retry_stale:
  assumes "readFile env c w = Some (Inr doc, w1)" and "doc_version doc \<noteq> v"
  shows "getDataFile env uc c v True w = Some (Inr (Whole doc), w1)"
  using assms by (auto simp: getDataFile_retry)


subsection \<open>Fetching and persisting leave the formatter object alone\<close>














subsection \<open>Runs without a forced synchronisation\<close>









lemma readFile_this: "readFile env name w = Some (r, w') \<Longrightarrow> this w' = this w"
  by (auto simp: readFile_def)


text \<open>
  With \<open>cut_off\<close>, the first read of a collection has a result exactly when the file
  is read and is at the expected version.
\<close>

lemma getDataFile_cut_off:
  "getDataFile env cut_off c v False w =
     (case readFile env c w of
        Some (Inr doc, w1) \<Rightarrow> if v = doc_version doc then Some (Inr (doc_data doc), w1) else None
      | _ \<Rightarrow> None)"
  using readFile_total [of env c w]
  by (auto simp: getDataFile_first cut_off_def split: sum.splits)





section \<open>Runs of the engine\<close>

subsection \<open>A concrete environment\<close>

text \<open>
  Game records are numbers and lookup tables are trivial. The upstream is at game
  version \<open>1.0.2\<close> and localization version \<open>L2\<close>, serves the five collections the
  lookup tables need, and its bundle holds two languages: English, with the four lines
  of the scenario above, and French, empty. The file system has no faults. The
  formatter is built from the default options of the server: language allow-list
  \<open>ENG_US\<close>, localization enabled, whole mode, compressed bundle.
\<close>

definition base_env :: "(nat, nat, unit) env" where
  "base_env =
     \<lparr> up_getMetaData = (\<lambda>t. Inr \<lparr> latestGamedataVersion = Some ''1.0.2'',
                                     latestLocalizationBundleVersion = Some ''L2'' \<rparr>),
       up_getGameData = (\<lambda>t v seg. Inr [(''units'', [1]), (''skill'', [2]), (''ability'', [3]),
                                         (''equipment'', [4]), (''statMod'', [5])]),
       up_getEnums = (\<lambda>t. Inl (UpstreamError ''enums unavailable'')),
       up_getLocalizationBundle =
         (\<lambda>t v unzip. Inr [(''Loc_ENG_US.txt'', StreamOf scenario_lines),
                            (''Loc_FRE_FR.txt'', StreamOf [])]),
       fs_read_error = (\<lambda>t name. None),
       fs_write_error = (\<lambda>t name. None),
       utils_convertToHelpFormat = (\<lambda>r. r),
       utils_match = (\<lambda>name d. True),
       utils_project = (\<lambda>name d. d),
       lookup_tables = (\<lambda>units skills abilities equipment mods. Inr ((), (), (), ())) \<rparr>"

definition default_options :: options where
  "default_options =
     \<lparr> opt_concurrentPlayers = 10, opt_concurrentGuilds = 2, opt_languages = ''ENG_US'',
       opt_noLocalization = None, opt_useSegments = None, opt_useUnzip = None,
       opt_updateInterval = None, opt_playerCacheTime = 30000, opt_dataPath = ''data'' \<rparr>"

text \<open>
  A world in which the formatter built from the given options holds the given
  VersionState, the store is empty and nothing has happened yet.
\<close>

definition fresh_world :: "options \<Rightarrow> version_state \<Rightarrow> (nat, unit) world" where
  "fresh_world opts v =
     \<lparr> this = (new_HelpFormatter opts)\<lparr>version := v\<rparr>, disk = Map.empty, clock = 0, writes = [] \<rparr>"

definition all_files :: "string list" where
  "all_files = [''units'', ''skill'', ''ability'', ''equipment'', ''statMod'']"

definition english_map :: lang_map where
  "english_map = [''KEY_A'' \<mapsto> ''Hello'', ''KEY_B'' \<mapsto> ''World'']"

subsection \<open>Evaluating the definitions\<close>

lemma formatter_default:
  "new_HelpFormatter default_options =
     \<lparr> concurrentPlayers = 10, concurrentGuilds = 2, languages = [''ENG_US''],
       noLocalization = False, useSegments = False, useUnzip = False, updateInterval = 5,
       dataPath = ''data'', logger = None, clientStub = None,
       version = \<lparr> game = None, language = None, gameFiles = None \<rparr>,
       langMaps = Map.empty \<rparr>"
  by (simp add: new_HelpFormatter_def default_options_def toUpperCase_def upper_char_def
      flag_true_def truthy_def)

lemma replaceLoc_Nil: "replaceLoc [] = []"
  by (simp add: replaceLoc.simps)

lemma replaceLoc_Cons:
  "replaceLoc (c # cs) =
     (if map lower_char (take 4 (c # cs)) = ''loc_'' then replaceLoc (drop 4 (c # cs))
      else if hd (c # cs) \<notin> {CHR 0x0A, CHR 0x0D} \<and> map lower_char (take 3 (tl (c # cs))) = ''txt''
           then replaceLoc (drop 4 (c # cs))
      else hd (c # cs) # replaceLoc (tl (c # cs)))"
  by (subst replaceLoc.simps) (simp only: list.simps if_False)

lemma replaceLoc_bundle_names:
  "replaceLoc ''Loc_ENG_US.txt'' = ''ENG_US''" "replaceLoc ''Loc_FRE_FR.txt'' = ''FRE_FR''"
  by (simp_all add: replaceLoc_Nil replaceLoc_Cons lower_char_def)

lemma english_stream: "processStreamByLine scenario_lines = english_map"
  by (simp add: scenario_stream english_map_def)

lemma empty_stream: "processStreamByLine [] = Map.empty"
  by (simp add: processStreamByLine_def)

lemmas io_defs = io_bind_def io_return_def io_throw_def io_catch_def io_get_def io_modify_def
  io_lift_def request_def readFile_def writeFile_def

lemmas engine_defs = updateCheck_body_def updateGameData_def fetchAndPersist_def fetchWhole_def
  fetchSegments_def persistCollection_def set_game_version_def updateCachedData_def
  getGameData_def collection_options_def stripList_def getDataFile.simps doc_version_def
  doc_data_def updateLocalizationBundle_def updateLanguage_def clear_langMaps_def
  set_langMap_def set_language_version_def parseBundleEntry_def gameDataNeedsUpdate_def
  localizationNeedsUpdate_def isStringEqual_def localeCompare_eq_def truthy_def
  replaceLoc_bundle_names english_stream empty_stream

lemmas scenario_defs = base_env_def fresh_world_def formatter_default all_files_def

text \<open>
  Whatever the bound on nested synchronisations, \<open>updateCheck\<close> is the body of the
  source function; the bound only decides what a self-healing read inside it may call.
\<close>

lemma updateCheck_unfold:
  "updateCheck env n =
     updateCheck_body env (case n of 0 \<Rightarrow> cut_off | Suc k \<Rightarrow> updateCheck env k)"
  by (cases n) simp_all

subsection \<open>A stale collection file\<close>

text \<open>
  The file of \<open>units\<close> is recorded at version \<open>1.0.0\<close>, the formatter expects
  \<open>1.0.1\<close>, and the upstream is still at \<open>1.0.0\<close>, so the forced synchronisation
  writes version \<open>1.0.0\<close> again.
\<close>

definition env1 :: "(nat, nat, unit) env" where
  "env1 = base_env\<lparr>up_getMetaData := (\<lambda>t. Inr \<lparr> latestGamedataVersion = Some ''1.0.0'',
                                     latestLocalizationBundleVersion = Some ''L2'' \<rparr>)\<rparr>"

definition w1 :: "(nat, unit) world" where
  "w1 = (fresh_world default_options
           \<lparr> game = Some ''1.0.1'', language = Some ''L2'', gameFiles = Some all_files \<rparr>)
          \<lparr>disk := [''units'' \<mapsto> Collection (Some ''1.0.0'') [7]]\<rparr>"

definition w1_after :: "(nat, unit) world" where
  "w1_after =
     w1\<lparr>this := (this w1)\<lparr>version := \<lparr> game = Some ''1.0.0'', language = Some ''L2'',
                                          gameFiles = Some all_files \<rparr>,
                            langMaps := [''ENG_US'' \<mapsto> english_map]\<rparr>,
        clock := 22,
        writes := all_files @ [''gameDataVersion'', ''unitMap'', ''equipMap'', ''skillMap'', ''modMap'',
                               ''ENG_US'', ''localizationVersion''],
        disk := [''units'' \<mapsto> Collection (Some ''1.0.0'') [1],
                 ''skill'' \<mapsto> Collection (Some ''1.0.0'') [2],
                 ''ability'' \<mapsto> Collection (Some ''1.0.0'') [3],
                 ''equipment'' \<mapsto> Collection (Some ''1.0.0'') [4],
                 ''statMod'' \<mapsto> Collection (Some ''1.0.0'') [5],
                 ''gameDataVersion'' \<mapsto> GameDataVersion (Some ''1.0.0'') all_files,
                 ''unitMap'' \<mapsto> LookupMap (), ''equipMap'' \<mapsto> LookupMap (),
                 ''skillMap'' \<mapsto> LookupMap (), ''modMap'' \<mapsto> LookupMap (),
                 ''ENG_US'' \<mapsto> Language (Some ''L2'') english_map,
                 ''localizationVersion'' \<mapsto> LocalizationVersion (Some ''L2'')]\<rparr>"

lemma stale_run:
  "getDataFile env1 (updateCheck_body env1 uc) ''units'' (Some ''1.0.1'') False w1
     = Some (Inr (Whole (Collection (Some ''1.0.0'') [1])), w1_after)"
  by (simp add: engine_defs io_defs scenario_defs env1_def w1_def w1_after_def)

text \<open>
  Claim C1. The read of \<open>units\<close> with expected version \<open>1.0.1\<close> finds the stale
  file, runs one forced synchronisation and reads again. The file is still at
  \<open>1.0.0\<close>. The call does not fail: it returns the stale document itself, version
  field and data, to its caller.
\<close>

theorem getDataFile_returns_stale_document:
  "getDataFile env1 (updateCheck env1 n) ''units'' (Some ''1.0.1'') False w1
     = Some (Inr (Whole (Collection (Some ''1.0.0'') [1])), w1_after)
   \<and> doc_version (Collection (Some ''1.0.0'') [1] :: (nat, unit) json_doc) \<noteq> Some ''1.0.1''"
  by (subst updateCheck_unfold) (simp add: stale_run doc_version_def)

text \<open>
  The same read when the synchronisation does produce the expected version: the retry
  returns the data.
\<close>

definition env1_fixed :: "(nat, nat, unit) env" where
  "env1_fixed = base_env\<lparr>up_getMetaData := (\<lambda>t. Inr \<lparr> latestGamedataVersion = Some ''1.0.1'',
                                     latestLocalizationBundleVersion = Some ''L2'' \<rparr>)\<rparr>"

lemma healed_run:
  "map_option fst
     (getDataFile env1_fixed (updateCheck_body env1_fixed uc) ''units'' (Some ''1.0.1'') False w1)
     = Some (Inr (Records [1]))"
  by (simp add: engine_defs io_defs scenario_defs env1_fixed_def w1_def)

subsection \<open>Whole mode with an empty collection\<close>

text \<open>
  The upstream answers \<^verbatim>\<open>{units: [1], skill: []}\<close>; the formatter is new and the
  store empty.
\<close>

definition env5 :: "(nat, nat, unit) env" where
  "env5 = base_env\<lparr>up_getGameData := (\<lambda>t v seg. Inr [(''units'', [1]), (''skill'', [])])\<rparr>"

definition w5 :: "(nat, unit) world" where
  "w5 = fresh_world default_options \<lparr> game = None, language = None, gameFiles = None \<rparr>"

definition w5_after :: "(nat, unit) world" where
  "w5_after =
     w5\<lparr>this := (this w5)\<lparr>version := \<lparr> game = Some ''2.0.0'', language = None,
                                          gameFiles = Some [''units'', ''skill''] \<rparr>\<rparr>,
        clock := 6,
        writes := [''units'', ''skill'', ''gameDataVersion''],
        disk := [''units'' \<mapsto> Collection (Some ''2.0.0'') [1],
                 ''skill'' \<mapsto> Collection (Some ''2.0.0'') [],
                 ''gameDataVersion'' \<mapsto> GameDataVersion (Some ''2.0.0'') [''units'', ''skill'']]\<rparr>"

text \<open>
  Claim C5. \<^verbatim>\<open>updateGameData("2.0.0")\<close> in whole mode writes a file for \<open>skill\<close>,
  an empty versioned document, and records \<open>skill\<close> among the known collections. (The
  call then fails in the rebuild of the lookup tables, for want of the collection
  \<open>ability\<close>.) The loop of the segmented mode skips an empty collection; the loop of
  the whole mode has no such test.
\<close>

theorem whole_mode_persists_empty_collection:
  "updateGameData env5 (updateCheck env5 n) (Some ''2.0.0'') w5
     = Some (Inl (Error ''ability is not a valid game data collection''), w5_after)
   \<and> writes w5_after = [''units'', ''skill'', ''gameDataVersion'']
   \<and> disk w5_after ''skill'' = Some (Collection (Some ''2.0.0'') [])
   \<and> gameFiles (version (this w5_after)) = Some [''units'', ''skill'']"
  by (simp add: engine_defs io_defs scenario_defs env5_def w5_def w5_after_def)

text \<open>
  With an upstream that serves all five collections, \<open>skill\<close> among them and empty,
  the update succeeds, and the empty file and its name in the list are there as well.
\<close>

definition env5_complete :: "(nat, nat, unit) env" where
  "env5_complete =
     base_env\<lparr>up_getGameData :=
       (\<lambda>t v seg. Inr [(''units'', [1]), (''skill'', []), (''ability'', [3]),
                        (''equipment'', [4]), (''statMod'', [5])])\<rparr>"

lemma whole_mode_complete_upstream:
  "updateGameData env5_complete uc (Some ''2.0.0'') w5
     = Some (Inr (),
         w5\<lparr>this := (this w5)\<lparr>version := \<lparr> game = Some ''2.0.0'', language = None,
                                              gameFiles = Some all_files \<rparr>\<rparr>,
            clock := 16,
            writes := all_files @ [''gameDataVersion'', ''unitMap'', ''equipMap'', ''skillMap'', ''modMap''],
            disk := [''units'' \<mapsto> Collection (Some ''2.0.0'') [1],
                     ''skill'' \<mapsto> Collection (Some ''2.0.0'') [],
                     ''ability'' \<mapsto> Collection (Some ''2.0.0'') [3],
                     ''equipment'' \<mapsto> Collection (Some ''2.0.0'') [4],
                     ''statMod'' \<mapsto> Collection (Some ''2.0.0'') [5],
                     ''gameDataVersion'' \<mapsto> GameDataVersion (Some ''2.0.0'') all_files,
                     ''unitMap'' \<mapsto> LookupMap (), ''equipMap'' \<mapsto> LookupMap (),
                     ''skillMap'' \<mapsto> LookupMap (), ''modMap'' \<mapsto> LookupMap ()]\<rparr>)"
  by (simp add: engine_defs io_defs scenario_defs env5_complete_def w5_def)

text \<open>
  The sibling: the body of the inner loop of the segmented mode leaves an empty
  collection out, without a write. (That mode cannot be reached on a formatter built by
  the constructor: it reads \<^verbatim>\<open>this.clientStub\<close>, which is never assigned.)
\<close>

lemma segmented_body_skips_empty:
  "(if snd (key, []) = [] then io_return files
    else persistCollection env v (fst (key, [])) (snd (key, [])) files) w = Some (Inr files, w)"
  by (simp add: io_return_def)

lemma segmented_mode_unreachable:
  "fetchSegments env (new_HelpFormatter opts) v w
     = Some (Inl (TypeError ''Cannot read properties of undefined (reading getEnums)''), w)"
  by (simp add: fetchSegments_def new_HelpFormatter_def io_throw_def)

subsection \<open>A disk that fills up during the rebuild\<close>


definition w3 :: "(nat, unit) world" where
  "w3 = fresh_world default_options
          \<lparr> game = Some ''1.0.1'', language = Some ''L2'', gameFiles = Some [''units''] \<rparr>"



text \<open>
  A read fault during the rebuild. The first collection read of the rebuild, at
  instant 7, fails. The self-healing read answers with a forced synchronisation and
  reads again.
\<close>

definition env_read_fault :: "(nat, nat, unit) env" where
  "env_read_fault = base_env\<lparr>fs_read_error :=
      (\<lambda>t name. if t = 7 then Some (IOError ''EIO: i/o error, read'') else None)\<rparr>"


text \<open>
  The same fault with an upstream that has moved on to \<open>1.0.3\<close>: the forced
  synchronisation installs \<open>1.0.3\<close>, the retry finds a file that is not at the expected
  \<open>1.0.2\<close>, and the call fails with a TypeError and VersionState at \<open>1.0.3\<close>.
\<close>

definition env_read_fault_newer :: "(nat, nat, unit) env" where
  "env_read_fault_newer =
     env_read_fault\<lparr>up_getMetaData := (\<lambda>t. Inr \<lparr> latestGamedataVersion = Some ''1.0.3'',
                                     latestLocalizationBundleVersion = Some ''L2'' \<rparr>)\<rparr>"

lemma read_fault_newer_upstream:
  "map_option fst
     (updateGameData env_read_fault_newer (updateCheck_body env_read_fault_newer uc) (Some ''1.0.2'') w3)
     = Some (Inl (TypeError ''response.filter is not a function''))"
  "map_option (version \<circ> this \<circ> snd)
     (updateGameData env_read_fault_newer (updateCheck_body env_read_fault_newer uc) (Some ''1.0.2'') w3)
     = Some \<lparr> game = Some ''1.0.3'', language = Some ''L2'', gameFiles = Some all_files \<rparr>"
  by (simp_all add: engine_defs io_defs scenario_defs env_read_fault_def env_read_fault_newer_def
      w3_def)




subsection \<open>The same versions twice\<close>

text \<open>
  The allow-list is misspelt: \<^verbatim>\<open>LANGUAGES=ENGLISH\<close>, which names no file of the
  bundle. The game track is fresh at \<open>1.0.2\<close>; the localization track is at \<open>L1\<close>
  and the upstream offers \<open>L2\<close>.
\<close>

definition english_options :: options where
  "english_options = default_options\<lparr>opt_languages := ''ENGLISH''\<rparr>"

lemma formatter_english:
  "new_HelpFormatter english_options =
     \<lparr> concurrentPlayers = 10, concurrentGuilds = 2, languages = [''ENGLISH''],
       noLocalization = False, useSegments = False, useUnzip = False, updateInterval = 5,
       dataPath = ''data'', logger = None, clientStub = None,
       version = \<lparr> game = None, language = None, gameFiles = None \<rparr>,
       langMaps = Map.empty \<rparr>"
  by (simp add: new_HelpFormatter_def english_options_def default_options_def toUpperCase_def
      upper_char_def flag_true_def truthy_def)

definition w4 :: "(nat, unit) world" where
  "w4 = fresh_world english_options
          \<lparr> game = Some ''1.0.2'', language = Some ''L1'', gameFiles = Some [''units''] \<rparr>"

definition w4a :: "(nat, unit) world" where
  "w4a = w4\<lparr>clock := 2, writes := [''localizationVersion''],
                disk := [''localizationVersion'' \<mapsto> LocalizationVersion (Some ''L2'')]\<rparr>"

definition w4b :: "(nat, unit) world" where
  "w4b = w4\<lparr>clock := 4, writes := [''localizationVersion'', ''localizationVersion''],
                disk := [''localizationVersion'' \<mapsto> LocalizationVersion (Some ''L2'')]\<rparr>"

lemma twice:
  "updateCheck_body base_env uc (Some ''1.0.2'') (Some ''L2'') False w4
     = Some (Inr \<lparr> game = Some ''1.0.2'', language = Some ''L1'', gameFiles = Some [''units''] \<rparr>, w4a)"
  "updateCheck_body base_env uc (Some ''1.0.2'') (Some ''L2'') False w4a
     = Some (Inr \<lparr> game = Some ''1.0.2'', language = Some ''L1'', gameFiles = Some [''units''] \<rparr>, w4b)"
  by (simp_all add: engine_defs io_defs w4_def w4a_def w4b_def fresh_world_def
      formatter_english base_env_def)

text \<open>
  Claim C4. \<^verbatim>\<open>updateCheck("1.0.2", "L2")\<close> succeeds and returns the VersionState;
  called again at once with the same versions it returns the same VersionState, and it
  has fetched the bundle and written \<open>localizationVersion\<close> a second time: the
  recorded localization version is only set inside the loop, when a language is kept.
\<close>

theorem updateCheck_second_call_writes:
  "updateCheck base_env n (Some ''1.0.2'') (Some ''L2'') False w4
     = Some (Inr \<lparr> game = Some ''1.0.2'', language = Some ''L1'', gameFiles = Some [''units''] \<rparr>, w4a)
   \<and> updateCheck base_env n (Some ''1.0.2'') (Some ''L2'') False w4a
     = Some (Inr \<lparr> game = Some ''1.0.2'', language = Some ''L1'', gameFiles = Some [''units''] \<rparr>, w4b)
   \<and> writes w4 = [] \<and> writes w4a = [''localizationVersion'']
   \<and> writes w4b = [''localizationVersion'', ''localizationVersion'']
   \<and> clock w4a = 2 \<and> clock w4b = 4"
  by (subst (1 2) updateCheck_unfold)
    (simp add: twice, simp add: w4_def w4a_def w4b_def fresh_world_def)

text \<open>
  With the allow-list spelt as the bundle names the file, the first call records the
  version and the second call writes nothing.
\<close>

definition w4_good :: "(nat, unit) world" where
  "w4_good = fresh_world default_options
          \<lparr> game = Some ''1.0.2'', language = Some ''L1'', gameFiles = Some [''units''] \<rparr>"

definition w4_good_after :: "(nat, unit) world" where
  "w4_good_after =
     w4_good\<lparr>this := (this w4_good)\<lparr>version := \<lparr> game = Some ''1.0.2'', language = Some ''L2'',
                                          gameFiles = Some [''units''] \<rparr>,
                            langMaps := [''ENG_US'' \<mapsto> english_map]\<rparr>,
        clock := 3, writes := [''ENG_US'', ''localizationVersion''],
        disk := [''ENG_US'' \<mapsto> Language (Some ''L2'') english_map,
                 ''localizationVersion'' \<mapsto> LocalizationVersion (Some ''L2'')]\<rparr>"

lemma twice_with_matching_language:
  "updateCheck_body base_env uc (Some ''1.0.2'') (Some ''L2'') False w4_good
     = Some (Inr \<lparr> game = Some ''1.0.2'', language = Some ''L2'', gameFiles = Some [''units''] \<rparr>,
             w4_good_after)"
  "updateCheck_body base_env uc (Some ''1.0.2'') (Some ''L2'') False w4_good_after
     = Some (Inr \<lparr> game = Some ''1.0.2'', language = Some ''L2'', gameFiles = Some [''units''] \<rparr>,
             w4_good_after)"
  by (simp_all add: engine_defs io_defs w4_good_def w4_good_after_def scenario_defs)

end
